theory Spec2Isabelle
  imports Complex_Main "HOL-Library.Multiset" "HOL-Library.Char_ord" "HOL-Library.List_Lexorder"
begin

section \<open>Numbers\<close>

text \<open>
  A JavaScript \<open>number\<close> is modelled as a real: the arithmetic of the source is read
  exactly, without the rounding of IEEE doubles, and without \<open>NaN\<close> or infinities
  (every division of the source that could produce them is written out with its guard).
  The trend detector is the exception: it compares sums and differences with fixed
  thresholds, where the rounding decides the outcome, so its numbers are binary64
  values and its operations round (see below).

  \<open>parseFloat(x.toFixed(d))\<close>: \<open>toFixed\<close> takes the sign off, picks the integer
  \<open>n\<close> with \<open>n / 10^d\<close> nearest to \<open>|x|\<close> (the larger one at a tie), and
  \<open>parseFloat\<close> reads the decimal string back.
\<close>

definition toFixed :: "nat \<Rightarrow> real \<Rightarrow> real" where
  "toFixed d x =
     (if x < 0 then - (of_int \<lfloor>(- x) * 10 ^ d + 1 / 2\<rfloor> / 10 ^ d)
      else of_int \<lfloor>x * 10 ^ d + 1 / 2\<rfloor> / 10 ^ d)"









text \<open>
  \<open>mean\<close> and \<open>std\<close> are imported from the mathjs library. \<open>mean(values)\<close> is the
  sum divided by the number of values. \<open>std(values)\<close>, called with one argument as
  the source does, uses the library's default normalization \<open>'unbiased'\<close>: the square
  root of the sum of squared deviations from the mean divided by \<open>n - 1\<close>, and 0 for
  a single value. Both throw on an empty array; the source calls them on the values of
  a non-empty population only.
\<close>

definition mean :: "real list \<Rightarrow> real" where
  "mean values = sum_list values / real (length values)"

definition variance :: "real list \<Rightarrow> real" where
  "variance values =
     (if length values = 1 then 0
      else sum_list (map (\<lambda>v. (v - mean values)\<^sup>2) values) / (real (length values) - 1))"

definition std :: "real list \<Rightarrow> real" where
  "std values = sqrt (variance values)"

section \<open>Data model (types/sleeper.ts)\<close>

text \<open>
  A stats object is a dictionary: its numeric entries (\<open>gp\<close>, \<open>pts\<close>, \<open>fgm\<close>, ...)
  are the map \<open>num\<close>, a missing key reads \<open>undefined\<close>. \<open>Number(p[k] || 0)\<close> is
  \<open>numField\<close>.
\<close>

record PlayerStats =
  player_name :: "string option"
  num :: "string \<rightharpoonup> real"

type_synonym AllStats = "string \<rightharpoonup> PlayerStats"

record Roster =
  roster_id :: int
  players :: "string list option"
  starters :: "string list option"

record PlayerZScore =
  name :: string
  scores :: "string \<rightharpoonup> real"
  totalZ :: real

type_synonym PlayerZScores = "string \<rightharpoonup> PlayerZScore"

text \<open>
  \<open>ScoringSettings\<close> is enumerated by \<open>Object.keys\<close>: it is given as the list of its
  entries in enumeration order.
\<close>

type_synonym ScoringSettings = "(string \<times> real) list"

definition numField :: "PlayerStats \<Rightarrow> string \<Rightarrow> real" where
  "numField p k = (case num p k of None \<Rightarrow> 0 | Some v \<Rightarrow> v)"

definition gpOf :: "PlayerStats \<Rightarrow> real" where
  "gpOf p = numField p ''gp''"

section \<open>Z-score engine (zScoreCalculator.ts)\<close>

definition SETTINGS_TO_STATS_MAP :: "(string \<times> string) list" where
  "SETTINGS_TO_STATS_MAP =
     [(''pts'', ''pts''), (''reb'', ''reb''), (''ast'', ''ast''), (''st'', ''stl''),
      (''stl'', ''stl''), (''blk'', ''blk''), (''to'', ''to''), (''turnovers'', ''to''),
      (''fg3m'', ''fg3m''), (''tpm'', ''fg3m''), (''fg_pct'', ''calculated_fg''),
      (''ft_pct'', ''calculated_ft''), (''fg3_pct'', ''calculated_3pt''),
      (''ast_to'', ''ast_to'')]"

definition PURE_RATIO_STATS :: "string list" where
  "PURE_RATIO_STATS = [''ast_to'', ''stl_to'']"

definition IMPACT_STATS :: "string list" where
  "IMPACT_STATS = [''calculated_fg'', ''calculated_ft'', ''calculated_3pt'']"

definition IGNORED_KEYS :: "string list" where
  "IGNORED_KEYS = [''bonus_ast_15p'', ''bonus_pt_40p'', ''bonus_pt_50p'', ''bonus_reb_20p'', ''qd'']"

datatype SplitType = FG | FT | TPT

text \<open>\<open>getSplitStats\<close>: the pair (made, attempted).\<close>

fun getSplitStats :: "PlayerStats \<Rightarrow> SplitType \<Rightarrow> real \<times> real" where
  "getSplitStats player FG = (numField player ''fgm'', numField player ''fga'')"
| "getSplitStats player FT = (numField player ''ftm'', numField player ''fta'')"
| "getSplitStats player TPT = (numField player ''fg3m'', numField player ''fg3a'')"

record Cat =
  settingKey :: string
  statKey :: string
  weight :: real

text \<open>
  \<open>SETTINGS_TO_STATS_MAP[settingKey] || settingKey\<close>. (A setting named like a member of
  \<open>Object.prototype\<close>, such as \<open>constructor\<close>, would read that member; such keys
  are not modelled.)
\<close>

definition statKeyOf :: "string \<Rightarrow> string" where
  "statKeyOf k = (case map_of SETTINGS_TO_STATS_MAP k of Some s \<Rightarrow> s | None \<Rightarrow> k)"

text \<open>Step 1: the active categories.\<close>

definition activeCats :: "ScoringSettings \<Rightarrow> Cat list" where
  "activeCats scoringSettings =
     filter (\<lambda>cat. statKey cat \<noteq> [])
       (map (\<lambda>(k, w). \<lparr>settingKey = k, statKey = statKeyOf k, weight = w\<rparr>)
          (filter (\<lambda>(k, w). w \<noteq> 0 \<and> k \<notin> set IGNORED_KEYS) scoringSettings))"

text \<open>Step 2: \<open>populationIds\<close>, every roster's players pushed in roster order.\<close>

definition populationIds :: "Roster list \<Rightarrow> string list" where
  "populationIds leagueRosters =
     fold (\<lambda>roster ids. case players roster of None \<Rightarrow> ids | Some ps \<Rightarrow> ids @ ps)
       leagueRosters []"

text \<open>Step 3: the stats of the ids that have a record with \<open>gp > 0\<close>.\<close>

definition populationStats :: "Roster list \<Rightarrow> AllStats \<Rightarrow> PlayerStats list" where
  "populationStats leagueRosters allStats =
     map the
       (filter (\<lambda>stat. case stat of None \<Rightarrow> False | Some s \<Rightarrow> gpOf s > 0)
          (map allStats (populationIds leagueRosters)))"

definition splitType :: "string \<Rightarrow> SplitType" where
  "splitType sk = (if sk = ''calculated_fg'' then FG else if sk = ''calculated_ft'' then FT else TPT)"

text \<open>Step 4A: the totals are accumulated by a loop over the population.\<close>

definition splitTotals :: "SplitType \<Rightarrow> PlayerStats list \<Rightarrow> real \<times> real" where
  "splitTotals ty pop =
     fold (\<lambda>p (totalM, totalA). case getSplitStats p ty of (m, a) \<Rightarrow> (totalM + m, totalA + a))
       pop (0, 0)"

definition leagueAvgPct :: "Cat \<Rightarrow> PlayerStats list \<Rightarrow> real" where
  "leagueAvgPct cat pop =
     (if statKey cat \<in> set IMPACT_STATS
      then (case splitTotals (splitType (statKey cat)) pop of
              (totalM, totalA) \<Rightarrow> if totalA > 0 then totalM / totalA else 0)
      else 0)"

definition catValues :: "Cat \<Rightarrow> PlayerStats list \<Rightarrow> real list" where
  "catValues cat pop =
     (if statKey cat \<in> set IMPACT_STATS
      then map (\<lambda>p. case getSplitStats p (splitType (statKey cat)) of
                  (m, a) \<Rightarrow>
                    let gp = gpOf p; pgMade = m / gp; pgAtt = a / gp
                    in pgMade - pgAtt * leagueAvgPct cat pop) pop
      else map (\<lambda>p. let rawVal = numField p (statKey cat)
                  in if statKey cat \<in> set PURE_RATIO_STATS then rawVal
                     else rawVal / gpOf p) pop)"

record Baseline =
  avg :: real
  stdB :: real
  avgPct :: real

definition baseline :: "Cat \<Rightarrow> PlayerStats list \<Rightarrow> Baseline" where
  "baseline cat pop =
     (let values = catValues cat pop; stdDev = std values
      in \<lparr>avg = mean values, stdB = (if stdDev = 0 then 1 else stdDev),
          avgPct = leagueAvgPct cat pop\<rparr>)"

definition leagueMath :: "Cat list \<Rightarrow> PlayerStats list \<Rightarrow> (string \<rightharpoonup> Baseline)" where
  "leagueMath cats pop = fold (\<lambda>cat lm. lm(settingKey cat \<mapsto> baseline cat pop)) cats Map.empty"

text \<open>
  Step 5, for one player and one category: the value, then the z-score with the
  direction and the magnitude of the weight. \<open>math\<close> is \<open>leagueMath[cat.settingKey]\<close>.
\<close>

definition playerValue :: "Cat \<Rightarrow> Baseline \<Rightarrow> PlayerStats \<Rightarrow> real" where
  "playerValue cat math pStats =
     (let gp = gpOf pStats
      in if statKey cat \<in> set IMPACT_STATS
         then (case getSplitStats pStats (splitType (statKey cat)) of
                 (m, a) \<Rightarrow> let pgMade = m / gp; pgAtt = a / gp in pgMade - pgAtt * avgPct math)
         else (let rawVal = numField pStats (statKey cat)
               in if statKey cat \<in> set PURE_RATIO_STATS then rawVal else rawVal / gp))"

definition catZ :: "Cat \<Rightarrow> Baseline \<Rightarrow> PlayerStats \<Rightarrow> real" where
  "catZ cat math pStats =
     (let z = (playerValue cat math pStats - avg math) / stdB math;
          z = (if weight cat < 0 then z * (- 1) else z)
      in z * \<bar>weight cat\<bar>)"

text \<open>
  The loop over the categories carries the scores written so far and the running
  total; a category whose baseline were missing would throw (\<open>None\<close>).
\<close>

definition catStep ::
  "(string \<rightharpoonup> Baseline) \<Rightarrow> PlayerStats \<Rightarrow> Cat \<Rightarrow> ((string \<rightharpoonup> real) \<times> real) option
     \<Rightarrow> ((string \<rightharpoonup> real) \<times> real) option" where
  "catStep lm pStats cat acc =
     (case acc of None \<Rightarrow> None
      | Some (sc, runningZ) \<Rightarrow>
          (case lm (settingKey cat) of None \<Rightarrow> None
           | Some math \<Rightarrow>
               let z = catZ cat math pStats
               in Some (sc(settingKey cat \<mapsto> toFixed 2 z), runningZ + z)))"

definition playerEntry ::
  "Cat list \<Rightarrow> (string \<rightharpoonup> Baseline) \<Rightarrow> PlayerStats \<Rightarrow> PlayerZScore option" where
  "playerEntry cats lm pStats =
     (case fold (catStep lm pStats) cats (Some (Map.empty, 0)) of
        None \<Rightarrow> None
      | Some (sc, runningZ) \<Rightarrow>
          Some \<lparr>name = (case player_name pStats of
                          None \<Rightarrow> ''Unknown Player''
                        | Some n \<Rightarrow> if n = [] then ''Unknown Player'' else n),
                scores = sc, totalZ = toFixed 2 runningZ\<rparr>)"

text \<open>
  \<open>calculateZScores\<close>: \<open>None\<close> is a thrown exception, \<open>Some result\<close> the returned
  object, read as a map from player id to entry.
\<close>

definition resultStep ::
  "Cat list \<Rightarrow> (string \<rightharpoonup> Baseline) \<Rightarrow> AllStats \<Rightarrow> string \<Rightarrow> PlayerZScores option
     \<Rightarrow> PlayerZScores option" where
  "resultStep cats lm allStats pid acc =
     (case acc of None \<Rightarrow> None
      | Some result \<Rightarrow>
          (case allStats pid of None \<Rightarrow> Some result
           | Some pStats \<Rightarrow>
               if gpOf pStats = 0 then Some result
               else (case playerEntry cats lm pStats of None \<Rightarrow> None
                     | Some e \<Rightarrow> Some (result(pid \<mapsto> e)))))"

definition calculateZScores :: "Roster list \<Rightarrow> AllStats \<Rightarrow> ScoringSettings \<Rightarrow> PlayerZScores option" where
  "calculateZScores leagueRosters allStats scoringSettings =
     (let cats = activeCats scoringSettings
      in if cats = [] then Some Map.empty
         else let pop = populationStats leagueRosters allStats
              in if pop = [] then Some Map.empty
                 else fold (resultStep cats (leagueMath cats pop) allStats)
                        (populationIds leagueRosters) (Some Map.empty))"


section \<open>Sorting with a comparator\<close>

text \<open>
  \<open>Array.prototype.sort(cmp)\<close> is stable: an element goes before the first element
  that it does not compare greater than, and elements that compare equal keep their
  order. \<open>sortBy\<close> is that stable sort; \<open>cmp a b \<le> 0\<close> reads "a may stand before b".
\<close>

fun insertBy :: "('a \<Rightarrow> 'a \<Rightarrow> real) \<Rightarrow> 'a \<Rightarrow> 'a list \<Rightarrow> 'a list" where
  "insertBy cmp x [] = [x]"
| "insertBy cmp x (y # ys) = (if cmp x y \<le> 0 then x # y # ys else y # insertBy cmp x ys)"

definition sortBy :: "('a \<Rightarrow> 'a \<Rightarrow> real) \<Rightarrow> 'a list \<Rightarrow> 'a list" where
  "sortBy cmp xs = foldr (insertBy cmp) xs []"

section \<open>Trend detector (trendAnalysis.ts)\<close>










section \<open>Trade scorer (tradeRecommender.ts)\<close>

text \<open>\<open>String(n)\<close> for an integer: its decimal digits, with a minus sign below zero.\<close>

definition digitChar :: "nat \<Rightarrow> char" where
  "digitChar n = ''0123456789'' ! (n mod 10)"

fun showNat :: "nat \<Rightarrow> string" where
  "showNat n = (if n < 10 then [digitChar n] else showNat (n div 10) @ [digitChar (n mod 10)])"

declare showNat.simps [simp del]

definition showInt :: "int \<Rightarrow> string" where
  "showInt i = (if i < 0 then CHR ''-'' # showNat (nat (- i)) else showNat (nat i))"

text \<open>
  A recommendation, with the \<open>stats\<close> object of the source flattened into its three
  numbers. The field \<open>rosters\<close>, a reference to the input list, is left out.
\<close>

record TradeRecommendation =
  tradePlayerId :: string
  tradePlayerName :: string
  rosterIndex :: nat
  ownerName :: string
  needCategoryZ :: real
  spareCategoryZ :: real
  tradeScore :: real

definition playersOf :: "Roster \<Rightarrow> string list" where
  "playersOf roster = (case players roster of None \<Rightarrow> [] | Some ps \<Rightarrow> ps)"

definition scoreOrZero :: "PlayerZScore \<Rightarrow> string \<Rightarrow> real" where
  "scoreOrZero playerData category = (case scores playerData category of None \<Rightarrow> 0 | Some z \<Rightarrow> z)"

definition ownerNameOf :: "(string \<rightharpoonup> string) option \<Rightarrow> int \<Rightarrow> string" where
  "ownerNameOf ownerDisplayNames rid =
     (let fallback = ''Team '' @ showInt rid
      in case ownerDisplayNames of None \<Rightarrow> fallback
         | Some names \<Rightarrow>
             (case names (showInt rid) of None \<Rightarrow> fallback
              | Some n \<Rightarrow> if n = [] then fallback else n))"

text \<open>The recommendation pushed for one player of another roster, if the player has z-scores.\<close>

definition tradeEntry ::
  "PlayerZScores \<Rightarrow> string \<Rightarrow> string \<Rightarrow> (string \<rightharpoonup> string) option \<Rightarrow> nat \<Rightarrow> Roster \<Rightarrow> string
     \<Rightarrow> TradeRecommendation option" where
  "tradeEntry playerZScores needCategory spareCategory ownerDisplayNames idx roster pid =
     (case playerZScores pid of None \<Rightarrow> None
      | Some playerData \<Rightarrow>
          let needZ = scoreOrZero playerData needCategory;
              spareZ = scoreOrZero playerData spareCategory
          in Some \<lparr>tradePlayerId = pid, tradePlayerName = name playerData, rosterIndex = idx,
                    ownerName = ownerNameOf ownerDisplayNames (roster_id roster),
                    needCategoryZ = needZ, spareCategoryZ = spareZ,
                    tradeScore = needZ - spareZ\<rparr>)"

text \<open>
  The two nested loops push in roster order, then in player order, skipping the
  rosters that carry the requesting id.
\<close>

definition tradeCandidates ::
  "int \<Rightarrow> Roster list \<Rightarrow> PlayerZScores \<Rightarrow> string \<Rightarrow> string \<Rightarrow> (string \<rightharpoonup> string) option
     \<Rightarrow> TradeRecommendation list" where
  "tradeCandidates myRosterId leagueRosters playerZScores needCategory spareCategory ownerDisplayNames =
     concat (map (\<lambda>(idx, roster).
                if roster_id roster = myRosterId then []
                else List.map_filter
                       (tradeEntry playerZScores needCategory spareCategory ownerDisplayNames idx roster)
                       (playersOf roster))
             (zip [0..<length leagueRosters] leagueRosters))"

definition recommendTrades ::
  "int \<Rightarrow> Roster list \<Rightarrow> PlayerZScores \<Rightarrow> string \<Rightarrow> string \<Rightarrow> (string \<rightharpoonup> string) option
     \<Rightarrow> TradeRecommendation list" where
  "recommendTrades myRosterId leagueRosters playerZScores needCategory spareCategory ownerDisplayNames =
     (case find (\<lambda>r. roster_id r = myRosterId) leagueRosters of
        None \<Rightarrow> []
      | Some myRoster \<Rightarrow>
          sortBy (\<lambda>a b. tradeScore b - tradeScore a)
            (tradeCandidates myRosterId leagueRosters playerZScores needCategory spareCategory
               ownerDisplayNames))"

section \<open>Consistency estimator (consistencyRating.ts)\<close>

record ConsistencyMetrics =
  meanPpg :: real
  stdEst :: real
  cv :: real
  riskLevel :: string

definition usageScore :: "PlayerStats \<Rightarrow> real" where
  "usageScore playerStats =
     (let gp = gpOf playerStats;
          ppg = numField playerStats ''pts'' / gp;
          rpg = numField playerStats ''reb'' / gp;
          apg = numField playerStats ''ast'' / gp
      in ppg + (rpg * 0.5) + (apg * 0.7))"

definition estimatedCV :: "PlayerStats \<Rightarrow> real" where
  "estimatedCV playerStats =
     (let gp = gpOf playerStats;
          ppg = numField playerStats ''pts'' / gp;
          rpg = numField playerStats ''reb'' / gp;
          apg = numField playerStats ''ast'' / gp;
          usage = usageScore playerStats;
          base = (if usage > 20 then 0.15 else if usage > 12 then 0.22
                  else if usage > 6 then 0.35 else 0.5);
          statVariance = \<bar>ppg - rpg - apg\<bar> / max usage 1
      in base + (statVariance * 0.05))"

definition calculateConsistency :: "PlayerStats option \<Rightarrow> ConsistencyMetrics" where
  "calculateConsistency playerStats =
     (case playerStats of
        None \<Rightarrow> \<lparr>meanPpg = 0, stdEst = 0, cv = 0, riskLevel = ''N/A''\<rparr>
      | Some ps \<Rightarrow>
          if gpOf ps = 0 then \<lparr>meanPpg = 0, stdEst = 0, cv = 0, riskLevel = ''N/A''\<rparr>
          else let ppg = numField ps ''pts'' / gpOf ps;
                   est = estimatedCV ps;
                   risk = (if est > 0.4 then ''High'' else if est > 0.25 then ''Medium'' else ''Low'')
               in \<lparr>meanPpg = toFixed 2 ppg, stdEst = toFixed 2 est, cv = toFixed 3 est,
                   riskLevel = risk\<rparr>)"


section \<open>Streaming planner (streamingLogic.ts)\<close>

record NBAGameSummary =
  gameId :: string
  gameDate :: string
  tipoffUTC :: string
  homeTeam :: string
  awayTeam :: string

record DailySchedule =
  date :: string
  isoDate :: string
  games :: "NBAGameSummary list"
  teamsPlaying :: "string list"

text \<open>The fields of a \<open>playersMap\<close> entry that the planner reads; each may be missing.\<close>

record PlayerMeta =
  fantasy_positions :: "string list option"
  position :: "string option"
  full_name :: "string option"
  first_name :: "string option"
  last_name :: "string option"
  search_full_name :: "string option"
  metaTeam :: "string option"

record Matchup =
  matchupRosterId :: int
  matchupStarters :: "string list option"

record PlayerStreamingInfo =
  streamPlayerId :: string
  streamName :: string
  team :: string
  positions :: "string list"
  isStarter :: bool
  zScore :: real
  upcomingGames :: "NBAGameSummary list"

record StreamCandidate = PlayerStreamingInfo +
  reason :: string

text \<open>
  A day of the plan. \<open>dayLabel\<close> (a date formatted in the locale of the machine) is
  left out, and so is \<open>generatedAt\<close> (the clock) in the plan.
\<close>

record StreamingDayPlan =
  planDate :: string
  nbaGames :: nat
  planTeamsPlaying :: "string list"
  dayActiveSlots :: nat
  playersAvailable :: nat
  holes :: int
  ownPlayers :: "PlayerStreamingInfo list"
  recommendations :: "StreamCandidate list"

record StreamingPlan =
  rosterId :: "int option"
  leagueId :: "string option"
  activeSlots :: nat
  benchSlots :: nat
  totalRosterPlayers :: nat
  days :: "StreamingDayPlan list"

record StreamingInput =
  roster :: "Roster option"
  allRosters :: "Roster list"
  rosterPositions :: "string list"
  playerZScores :: "(string \<times> PlayerZScore) list"
  playersMap :: "string \<rightharpoonup> PlayerMeta"
  dailySchedule :: "DailySchedule list"
  teamGameMap :: "string \<rightharpoonup> NBAGameSummary list"
  matchups :: "Matchup list option"
  inputLeagueId :: "string option"

definition BENCH_CODES :: "string set" where
  "BENCH_CODES = {''BN'', ''IR'', ''IR+'', ''NA''}"

text \<open>\<open>toUpperCase\<close> on the ASCII letters, which is all that a slot code holds.\<close>

definition toUpperChar :: "char \<Rightarrow> char" where
  "toUpperChar c =
     (case map_of (zip ''abcdefghijklmnopqrstuvwxyz'' ''ABCDEFGHIJKLMNOPQRSTUVWXYZ'') c of
        Some u \<Rightarrow> u
      | None \<Rightarrow> c)"

definition toUpperCase :: "string \<Rightarrow> string" where
  "toUpperCase s = map toUpperChar s"

definition getActiveSlotCount :: "string list \<Rightarrow> nat" where
  "getActiveSlotCount rps = length (filter (\<lambda>slot. slot \<noteq> [] \<and> toUpperCase slot \<notin> BENCH_CODES) rps)"

definition getBenchSlotCount :: "string list \<Rightarrow> nat" where
  "getBenchSlotCount rps = length (filter (\<lambda>slot. toUpperCase slot \<in> BENCH_CODES) rps)"

definition fallbackSet :: "string list option \<Rightarrow> string set" where
  "fallbackSet fallbackStarters = (case fallbackStarters of None \<Rightarrow> {} | Some xs \<Rightarrow> set xs)"

definition buildStarterSet :: "Matchup list option \<Rightarrow> int option \<Rightarrow> string list option \<Rightarrow> string set" where
  "buildStarterSet ms rid fallbackStarters =
     (case ms of None \<Rightarrow> fallbackSet fallbackStarters
      | Some mlist \<Rightarrow>
          (case rid of None \<Rightarrow> fallbackSet fallbackStarters
           | Some r \<Rightarrow>
               if r = 0 then fallbackSet fallbackStarters
               else (case find (\<lambda>m. matchupRosterId m = r) mlist of
                       None \<Rightarrow> fallbackSet fallbackStarters
                     | Some matchupEntry \<Rightarrow>
                         (case matchupStarters matchupEntry of
                            None \<Rightarrow> fallbackSet fallbackStarters
                          | Some st \<Rightarrow>
                              if st = [] then fallbackSet fallbackStarters
                              else set (filter (\<lambda>x. x \<noteq> []) st)))))"

definition buildRosteredSet :: "Roster list \<Rightarrow> string set" where
  "buildRosteredSet rs = fold (\<lambda>t rostered. fold insert (playersOf t) rostered) rs {}"

definition truthy :: "string option \<Rightarrow> bool" where
  "truthy s = (case s of None \<Rightarrow> False | Some v \<Rightarrow> v \<noteq> [])"

definition emptyMeta :: PlayerMeta where
  "emptyMeta = \<lparr>fantasy_positions = None, position = None, full_name = None, first_name = None,
                 last_name = None, search_full_name = None, metaTeam = None\<rparr>"

text \<open>\<open>getPlayerMeta\<close>: the triple (name, positions, team).\<close>

definition getPlayerMeta :: "string \<Rightarrow> (string \<rightharpoonup> PlayerMeta) \<Rightarrow> string \<times> string list \<times> string" where
  "getPlayerMeta pid pm =
     (let meta = (case pm pid of None \<Rightarrow> emptyMeta | Some m \<Rightarrow> m);
          ps = (case fantasy_positions meta of
                  Some fp \<Rightarrow> if fp \<noteq> [] then fp
                             else if truthy (position meta) then [the (position meta)] else []
                | None \<Rightarrow> if truthy (position meta) then [the (position meta)] else []);
          nm = (if truthy (full_name meta) then the (full_name meta)
                else if truthy (first_name meta) \<and> truthy (last_name meta)
                     then the (first_name meta) @ '' '' @ the (last_name meta)
                else if truthy (search_full_name meta) then the (search_full_name meta)
                else pid)
      in (nm, ps, case metaTeam meta of None \<Rightarrow> [] | Some t \<Rightarrow> t))"

definition agentOf ::
  "(string \<rightharpoonup> PlayerMeta) \<Rightarrow> string set \<Rightarrow> string \<times> PlayerZScore \<Rightarrow> StreamCandidate option" where
  "agentOf pm rosteredSet entry =
     (case entry of (pid, zData) \<Rightarrow>
        if pid \<in> rosteredSet then None
        else (case getPlayerMeta pid pm of (nm, ps, tm) \<Rightarrow>
                if tm = [] then None
                else Some \<lparr>streamPlayerId = pid, streamName = nm, team = tm, positions = ps,
                           isStarter = False, zScore = totalZ zData, upcomingGames = [],
                           reason = ''Top free agent by z-score''\<rparr>))"

definition collectFreeAgents ::
  "(string \<times> PlayerZScore) list \<Rightarrow> (string \<rightharpoonup> PlayerMeta) \<Rightarrow> string set \<Rightarrow> StreamCandidate list" where
  "collectFreeAgents pz pm rosteredSet =
     take 200 (sortBy (\<lambda>a b. zScore b - zScore a) (List.map_filter (agentOf pm rosteredSet) pz))"

definition enrichWithUpcomingGames ::
  "'a PlayerStreamingInfo_scheme list \<Rightarrow> (string \<rightharpoonup> NBAGameSummary list) \<Rightarrow> string \<Rightarrow> nat
     \<Rightarrow> 'a PlayerStreamingInfo_scheme list" where
  "enrichWithUpcomingGames entries tgm referenceDate limit =
     map (\<lambda>entry. entry\<lparr>upcomingGames :=
                      take limit (filter (\<lambda>game. gameDate game \<ge> referenceDate)
                                    (case tgm (team entry) of None \<Rightarrow> [] | Some gs \<Rightarrow> gs))\<rparr>)
       entries"

definition rosterPlayerInfo ::
  "(string \<times> PlayerZScore) list \<Rightarrow> (string \<rightharpoonup> PlayerMeta) \<Rightarrow> string set \<Rightarrow> string
     \<Rightarrow> PlayerStreamingInfo" where
  "rosterPlayerInfo pz pm starterSet pid =
     (case getPlayerMeta pid pm of (nm, ps, tm) \<Rightarrow>
        \<lparr>streamPlayerId = pid, streamName = nm, team = tm, positions = ps,
         isStarter = (pid \<in> starterSet),
         zScore = (case map_of pz pid of None \<Rightarrow> 0 | Some z \<Rightarrow> totalZ z),
         upcomingGames = []\<rparr>)"

definition ownPlayersCmp :: "PlayerStreamingInfo \<Rightarrow> PlayerStreamingInfo \<Rightarrow> real" where
  "ownPlayersCmp a b =
     (if isStarter a = isStarter b then zScore b - zScore a else if isStarter a then - 1 else 1)"

definition dayPlan ::
  "nat \<Rightarrow> PlayerStreamingInfo list \<Rightarrow> StreamCandidate list \<Rightarrow> (string \<rightharpoonup> NBAGameSummary list)
     \<Rightarrow> DailySchedule \<Rightarrow> StreamingDayPlan" where
  "dayPlan active rosterPlayers freeAgents tgm day =
     (let dayTeams = set (teamsPlaying day);
          available = filter (\<lambda>player. team player \<noteq> [] \<and> team player \<in> dayTeams) rosterPlayers;
          hs = max 0 (int active - int (length available));
          enrichedOwnPlayers = enrichWithUpcomingGames available tgm (date day) 2;
          recs = (if hs > 0
                  then let faOptions = filter (\<lambda>agent. team agent \<noteq> [] \<and> team agent \<in> dayTeams) freeAgents;
                           enrichedCandidates =
                             map (\<lambda>entry. entry\<lparr>reason := ''Plays on '' @ date day
                                                    @ '' and ranks among top available z-scores''\<rparr>)
                               (enrichWithUpcomingGames faOptions tgm (date day) 3)
                       in take (nat (min (hs * 2) 5)) enrichedCandidates
                  else [])
      in \<lparr>planDate = date day, nbaGames = length (games day), planTeamsPlaying = teamsPlaying day,
          dayActiveSlots = active, playersAvailable = length available, holes = hs,
          ownPlayers = sortBy ownPlayersCmp enrichedOwnPlayers, recommendations = recs\<rparr>)"

definition buildStreamingPlan :: "StreamingInput \<Rightarrow> StreamingPlan" where
  "buildStreamingPlan input =
     (let active = getActiveSlotCount (rosterPositions input);
          bench = getBenchSlotCount (rosterPositions input);
          rid = (case roster input of None \<Rightarrow> None | Some r \<Rightarrow> Some (roster_id r));
          rosterStarters = (case roster input of None \<Rightarrow> None | Some r \<Rightarrow> starters r);
          rosterIds = (case roster input of None \<Rightarrow> [] | Some r \<Rightarrow> playersOf r);
          starterSet = buildStarterSet (matchups input) rid rosterStarters;
          rosteredSet = buildRosteredSet (allRosters input);
          freeAgents = collectFreeAgents (playerZScores input) (playersMap input) rosteredSet;
          rosterPlayers = map (rosterPlayerInfo (playerZScores input) (playersMap input) starterSet) rosterIds
      in \<lparr>rosterId = rid, leagueId = inputLeagueId input, activeSlots = active, benchSlots = bench,
          totalRosterPlayers = length rosterIds,
          days = map (dayPlan active rosterPlayers freeAgents (teamGameMap input)) (dailySchedule input)\<rparr>)"

section \<open>The spec's wording, for comparison\<close>

text \<open>
  The population standard deviation of the spec: the square root of the mean squared
  deviation (divisor \<open>n\<close>).
\<close>

definition populationStd :: "real list \<Rightarrow> real" where
  "populationStd values = sqrt (sum_list (map (\<lambda>v. (v - mean values)\<^sup>2) values) / real (length values))"

text \<open>
  The population of the spec: the stats of the duplicate-free union of the rosters'
  player ids (each id once, at its first occurrence), restricted to the ids that have a
  record with \<open>gp > 0\<close>.
\<close>

definition unionIds :: "Roster list \<Rightarrow> string list" where
  "unionIds leagueRosters = rev (remdups (rev (concat (map playersOf leagueRosters))))"

definition specPopulation :: "Roster list \<Rightarrow> AllStats \<Rightarrow> PlayerStats list" where
  "specPopulation leagueRosters allStats =
     map the
       (filter (\<lambda>stat. case stat of None \<Rightarrow> False | Some s \<Rightarrow> gpOf s > 0)
          (map allStats (unionIds leagueRosters)))"

section \<open>Notions for the statements and example data\<close>

text \<open>\<open>pStats.player_name || 'Unknown Player'\<close>.\<close>

definition playerNameOf :: "PlayerStats \<Rightarrow> string" where
  "playerNameOf p = (case player_name p of None \<Rightarrow> ''Unknown Player''
                        | Some n \<Rightarrow> if n = [] then ''Unknown Player'' else n)"

text \<open>
  The entry that the engine writes for a player with stats \<open>p\<close>, given the scoring
  settings and the population: the closed form of the two loops of step 5.
\<close>

definition entryFor :: "ScoringSettings \<Rightarrow> PlayerStats list \<Rightarrow> PlayerStats \<Rightarrow> PlayerZScore" where
  "entryFor ss pop p =
     \<lparr>name = playerNameOf p,
      scores = fold (\<lambda>c s. s(settingKey c \<mapsto> toFixed 2 (catZ c (baseline c pop) p))) (activeCats ss) Map.empty,
      totalZ = toFixed 2 (sum_list (map (\<lambda>c. catZ c (baseline c pop) p) (activeCats ss)))\<rparr>"

text \<open>
  Readings of a returned result: the score stored for a player under a category key,
  and the stored total.
\<close>

definition storedScore :: "PlayerZScores option \<Rightarrow> string \<Rightarrow> string \<Rightarrow> real option" where
  "storedScore result pid key =
     (case result of None \<Rightarrow> None
      | Some res \<Rightarrow> (case res pid of None \<Rightarrow> None | Some e \<Rightarrow> scores e key))"

definition storedTotal :: "PlayerZScores option \<Rightarrow> string \<Rightarrow> real option" where
  "storedTotal result pid =
     (case result of None \<Rightarrow> None
      | Some res \<Rightarrow> (case res pid of None \<Rightarrow> None | Some e \<Rightarrow> Some (totalZ e)))"

text \<open>
  A league of two rosters and three players with stats; the fourth id, \<open>x\<close>, has no
  stats record.
\<close>

definition exRosters :: "Roster list" where
  "exRosters = [\<lparr>roster_id = 1, players = Some [''a'', ''b''], starters = None\<rparr>,
                \<lparr>roster_id = 2, players = Some [''c'', ''x''], starters = None\<rparr>]"

definition exA :: PlayerStats where
  "exA = \<lparr>player_name = Some ''Ann'',
          num = [''gp'' \<mapsto> 10, ''pts'' \<mapsto> 110, ''reb'' \<mapsto> 110, ''to'' \<mapsto> 11,
                 ''fgm'' \<mapsto> 50, ''fga'' \<mapsto> 100]\<rparr>"

definition exB :: PlayerStats where
  "exB = \<lparr>player_name = Some ''Bob'',
          num = [''gp'' \<mapsto> 10, ''pts'' \<mapsto> 130, ''reb'' \<mapsto> 130, ''to'' \<mapsto> 13,
                 ''fgm'' \<mapsto> 30, ''fga'' \<mapsto> 100]\<rparr>"

definition exC :: PlayerStats where
  "exC = \<lparr>player_name = None,
          num = [''gp'' \<mapsto> 10, ''pts'' \<mapsto> 0, ''reb'' \<mapsto> 0, ''to'' \<mapsto> 0,
                 ''fgm'' \<mapsto> 40, ''fga'' \<mapsto> 50]\<rparr>"

definition exStats :: AllStats where
  "exStats = [''a'' \<mapsto> exA, ''b'' \<mapsto> exB, ''c'' \<mapsto> exC]"

text \<open>
  Three shooters, ten games each: 80 of 100, 100 of 100 and 20 of 200 field goals (120
  of 400 in all, a league rate of 0.5); the field-goal percentage is worth 2.
\<close>

definition exShooterA :: PlayerStats where
  "exShooterA = \<lparr>player_name = Some ''Ann'', num = [''gp'' \<mapsto> 10, ''fgm'' \<mapsto> 80, ''fga'' \<mapsto> 100]\<rparr>"

definition exShooterB :: PlayerStats where
  "exShooterB = \<lparr>player_name = Some ''Bob'', num = [''gp'' \<mapsto> 10, ''fgm'' \<mapsto> 100, ''fga'' \<mapsto> 100]\<rparr>"

definition exShooterC :: PlayerStats where
  "exShooterC = \<lparr>player_name = Some ''Cyd'', num = [''gp'' \<mapsto> 10, ''fgm'' \<mapsto> 20, ''fga'' \<mapsto> 200]\<rparr>"

definition exStatsFG :: AllStats where
  "exStatsFG = [''a'' \<mapsto> exShooterA, ''b'' \<mapsto> exShooterB, ''c'' \<mapsto> exShooterC]"

definition exCatFG :: Cat where
  "exCatFG = \<lparr>settingKey = ''fg_pct'', statKey = ''calculated_fg'', weight = 2\<rparr>"

text \<open>A stats record with a negative attempt total (one make, minus two attempts).\<close>

definition exNegShooter :: PlayerStats where
  "exNegShooter = \<lparr>player_name = None, num = [''gp'' \<mapsto> 1, ''fgm'' \<mapsto> 1, ''fga'' \<mapsto> - 2]\<rparr>"

definition exRostersNeg :: "Roster list" where
  "exRostersNeg = [\<lparr>roster_id = 1, players = Some [''n''], starters = None\<rparr>]"

definition exStatsNeg :: AllStats where
  "exStatsNeg = [''n'' \<mapsto> exNegShooter]"

definition exCatTO :: Cat where
  "exCatTO = \<lparr>settingKey = ''to'', statKey = ''to'', weight = - 1\<rparr>"

text \<open>Three players with 1, 2 and 3 turnovers per game: mean 2, standard deviation 1.\<close>

definition exT1 :: PlayerStats where
  "exT1 = \<lparr>player_name = Some ''Uno'', num = [''gp'' \<mapsto> 2, ''to'' \<mapsto> 2]\<rparr>"

definition exT2 :: PlayerStats where
  "exT2 = \<lparr>player_name = Some ''Duo'', num = [''gp'' \<mapsto> 2, ''to'' \<mapsto> 4]\<rparr>"

definition exT3 :: PlayerStats where
  "exT3 = \<lparr>player_name = Some ''Tre'', num = [''gp'' \<mapsto> 2, ''to'' \<mapsto> 6]\<rparr>"

definition exStatsTO :: AllStats where
  "exStatsTO = [''a'' \<mapsto> exT1, ''b'' \<mapsto> exT2, ''c'' \<mapsto> exT3]"

text \<open>Points and rebounds, each worth 1.\<close>

definition exSettingsPR :: ScoringSettings where
  "exSettingsPR = [(''pts'', 1), (''reb'', 1)]"

definition exCatPts :: Cat where
  "exCatPts = \<lparr>settingKey = ''pts'', statKey = ''pts'', weight = 1\<rparr>"

definition exCatReb :: Cat where
  "exCatReb = \<lparr>settingKey = ''reb'', statKey = ''reb'', weight = 1\<rparr>"

text \<open>The first and the third of the turnover players, on a roster each.\<close>

definition exRostersAC :: "Roster list" where
  "exRostersAC = [\<lparr>roster_id = 1, players = Some [''a''], starters = None\<rparr>,
                  \<lparr>roster_id = 2, players = Some [''c''], starters = None\<rparr>]"

text \<open>A league in which the id \<open>a\<close> is listed on both rosters.\<close>

definition exRostersDup :: "Roster list" where
  "exRostersDup = [\<lparr>roster_id = 1, players = Some [''a'', ''b''], starters = None\<rparr>,
                   \<lparr>roster_id = 2, players = Some [''a''], starters = None\<rparr>]"





text \<open>
  Three rosters and the z-scores of four of their five players (\<open>q\<close> has none); \<open>p2\<close>
  has no score in the category \<open>blk\<close>.
\<close>

definition exTradeRosters :: "Roster list" where
  "exTradeRosters = [\<lparr>roster_id = 1, players = Some [''p1''], starters = None\<rparr>,
                     \<lparr>roster_id = 2, players = Some [''p2'', ''q''], starters = None\<rparr>,
                     \<lparr>roster_id = 3, players = Some [''p3'', ''p4''], starters = None\<rparr>]"

definition exTradeZ :: PlayerZScores where
  "exTradeZ = [''p1'' \<mapsto> \<lparr>name = ''One'', scores = [''ast'' \<mapsto> 2, ''blk'' \<mapsto> 0], totalZ = 2\<rparr>,
               ''p2'' \<mapsto> \<lparr>name = ''Two'', scores = [''ast'' \<mapsto> 0.5], totalZ = 0.5\<rparr>,
               ''p3'' \<mapsto> \<lparr>name = ''Three'', scores = [''ast'' \<mapsto> 1.5, ''blk'' \<mapsto> - 0.5], totalZ = 1\<rparr>,
               ''p4'' \<mapsto> \<lparr>name = ''Four'', scores = [''ast'' \<mapsto> 1, ''blk'' \<mapsto> 1], totalZ = 2\<rparr>]"

text \<open>Season aggregates of a star, a role player, a bench player and a player without games.\<close>

definition exStar :: PlayerStats where
  "exStar = \<lparr>player_name = None, num = [''gp'' \<mapsto> 10, ''pts'' \<mapsto> 250, ''reb'' \<mapsto> 50, ''ast'' \<mapsto> 50]\<rparr>"

definition exRole :: PlayerStats where
  "exRole = \<lparr>player_name = None, num = [''gp'' \<mapsto> 10, ''pts'' \<mapsto> 80, ''reb'' \<mapsto> 20, ''ast'' \<mapsto> 20]\<rparr>"

definition exBench :: PlayerStats where
  "exBench = \<lparr>player_name = None, num = [''gp'' \<mapsto> 10, ''pts'' \<mapsto> 20, ''reb'' \<mapsto> 10, ''ast'' \<mapsto> 5]\<rparr>"

definition exNoGames :: PlayerStats where
  "exNoGames = \<lparr>player_name = None, num = [''gp'' \<mapsto> 0, ''pts'' \<mapsto> 0]\<rparr>"

text \<open>
  What the planner makes of a free agent that it recommends for a day: the upcoming
  games (at most 3, from the day on) and the reason are filled in, every other field
  is kept.
\<close>

definition candidateOf :: "(string \<rightharpoonup> NBAGameSummary list) \<Rightarrow> DailySchedule \<Rightarrow> StreamCandidate \<Rightarrow> StreamCandidate" where
  "candidateOf tgm day entry =
     entry\<lparr>upcomingGames := take 3 (filter (\<lambda>game. gameDate game \<ge> date day)
                                        (case tgm (team entry) of None \<Rightarrow> [] | Some gs \<Rightarrow> gs)),
           reason := ''Plays on '' @ date day @ '' and ranks among top available z-scores''\<rparr>"

text \<open>
  A streaming input: the target roster has two players, the league a second roster;
  three active slots and one bench slot; four free agents have z-scores, one of them
  (\<open>f4\<close>) has no team; two days of schedule.
\<close>

definition exZ :: "real \<Rightarrow> PlayerZScore" where
  "exZ t = \<lparr>name = ''n'', scores = Map.empty, totalZ = t\<rparr>"

definition exMeta :: "string \<Rightarrow> string \<Rightarrow> PlayerMeta" where
  "exMeta n t = \<lparr>fantasy_positions = None, position = Some ''G'', full_name = Some n,
                  first_name = None, last_name = None, search_full_name = None, metaTeam = Some t\<rparr>"

definition exPlayersMap :: "string \<rightharpoonup> PlayerMeta" where
  "exPlayersMap = [''r1'' \<mapsto> exMeta ''Roster One'' ''LAL'', ''r2'' \<mapsto> exMeta ''Roster Two'' ''BOS'',
                   ''o1'' \<mapsto> exMeta ''Other One'' ''LAL'', ''f1'' \<mapsto> exMeta ''Free One'' ''LAL'',
                   ''f2'' \<mapsto> exMeta ''Free Two'' ''BOS'', ''f3'' \<mapsto> exMeta ''Free Three'' ''LAL'']"

definition exGame :: NBAGameSummary where
  "exGame = \<lparr>gameId = ''g1'', gameDate = ''2025-01-10'', tipoffUTC = ''2025-01-11T00:00:00Z'',
             homeTeam = ''LAL'', awayTeam = ''NYK''\<rparr>"

definition exInput :: StreamingInput where
  "exInput =
     \<lparr>roster = Some \<lparr>roster_id = 1, players = Some [''r1'', ''r2''], starters = Some [''r1'']\<rparr>,
      allRosters = [\<lparr>roster_id = 1, players = Some [''r1'', ''r2''], starters = Some [''r1'']\<rparr>,
                    \<lparr>roster_id = 2, players = Some [''o1''], starters = None\<rparr>],
      rosterPositions = [''PG'', ''SG'', ''C'', ''BN''],
      playerZScores = [(''r1'', exZ 2), (''o1'', exZ 1), (''f1'', exZ 1.5), (''f2'', exZ 3),
                       (''f3'', exZ 0.5), (''f4'', exZ 9)],
      playersMap = exPlayersMap,
      dailySchedule = [\<lparr>date = ''2025-01-10'', isoDate = ''2025-01-10T00:00:00Z'', games = [exGame],
                         teamsPlaying = [''LAL'', ''NYK'']\<rparr>,
                       \<lparr>date = ''2025-01-11'', isoDate = ''2025-01-11T00:00:00Z'', games = [],
                         teamsPlaying = []\<rparr>],
      teamGameMap = [''LAL'' \<mapsto> [exGame], ''NYK'' \<mapsto> [exGame]],
      matchups = None,
      inputLeagueId = Some ''L1''\<rparr>"

section \<open>Properties of the comparator sort\<close>

lemma insertBy_insort_key:
  "insertBy (\<lambda>a b. f b - f a) x ys = insort_key (\<lambda>a. - f a) x ys"
  by (induction ys) auto

lemma sortBy_sort_key: "sortBy (\<lambda>a b. f b - f a) xs = sort_key (\<lambda>a. - f a) xs"
  by (induction xs) (simp_all add: sortBy_def insertBy_insort_key)

lemma sorted_desc_sortBy:
  "sorted_wrt (\<lambda>a b. f a \<ge> f b) (sortBy (\<lambda>a b. f b - f a) xs)"
proof -
  have "sorted (map (\<lambda>a. - f a) (sort_key (\<lambda>a. - f a) xs))" by (rule sorted_sort_key)
  then show ?thesis
    by (simp add: sortBy_sort_key sorted_wrt_map)
qed

lemma mset_sortBy: "mset (sortBy (\<lambda>a b. f b - f a) xs) = mset xs"
  by (simp add: sortBy_sort_key)

section \<open>The z-score engine, step by step\<close>

lemma splitTotals_fold:
  "fold (\<lambda>p (totalM, totalA). case getSplitStats p ty of (m, a) \<Rightarrow> (totalM + m, totalA + a)) pop (M, A)
    = (M + sum_list (map (\<lambda>p. fst (getSplitStats p ty)) pop),
       A + sum_list (map (\<lambda>p. snd (getSplitStats p ty)) pop))"
  by (induction pop arbitrary: M A) (auto split: prod.splits)

lemma splitTotals_sum:
  "splitTotals ty pop = (sum_list (map (\<lambda>p. fst (getSplitStats p ty)) pop),
                         sum_list (map (\<lambda>p. snd (getSplitStats p ty)) pop))"
  by (simp add: splitTotals_def splitTotals_fold)

lemma baseline_statKey: "statKey c = statKey c' \<Longrightarrow> baseline c pop = baseline c' pop"
  by (simp add: baseline_def catValues_def leagueAvgPct_def)

lemma leagueMath_snoc:
  "leagueMath (cats @ [c]) pop = (leagueMath cats pop)(settingKey c \<mapsto> baseline c pop)"
  by (simp add: leagueMath_def)

lemma leagueMath_lookup:
  assumes "cat \<in> set cats" and "\<forall>c\<in>set cats. statKey c = statKeyOf (settingKey c)"
  shows "leagueMath cats pop (settingKey cat) = Some (baseline cat pop)"
  using assms
proof (induction cats rule: rev_induct)
  case Nil
  then show ?case by simp
next
  case (snoc c cats)
  show ?case
  proof (cases "settingKey c = settingKey cat")
    case True
    with snoc.prems have "statKey c = statKey cat" by auto
    then have "baseline c pop = baseline cat pop" by (rule baseline_statKey)
    then show ?thesis using True by (simp add: leagueMath_snoc)
  next
    case False
    with snoc show ?thesis by (auto simp: leagueMath_snoc)
  qed
qed

lemma activeCats_member:
  "c \<in> set (activeCats ss) \<Longrightarrow>
     statKey c = statKeyOf (settingKey c) \<and> weight c \<noteq> 0 \<and> (settingKey c, weight c) \<in> set ss"
  by (auto simp: activeCats_def)

lemma activeCats_lookup:
  "cat \<in> set (activeCats ss) \<Longrightarrow>
     leagueMath (activeCats ss) pop (settingKey cat) = Some (baseline cat pop)"
  by (rule leagueMath_lookup) (auto dest: activeCats_member)

lemma activeCats_distinct:
  "distinct (map fst ss) \<Longrightarrow> distinct (map settingKey (activeCats ss))"
proof -
  assume d: "distinct (map fst ss)"
  have "map settingKey (activeCats ss) = filter (\<lambda>k. statKeyOf k \<noteq> []) (map fst (filter (\<lambda>(k, w). w \<noteq> 0 \<and> k \<notin> set IGNORED_KEYS) ss))"
    unfolding activeCats_def by (induction ss) auto
  moreover have "distinct (map fst (filter (\<lambda>(k, w). w \<noteq> 0 \<and> k \<notin> set IGNORED_KEYS) ss))"
    using d by (rule distinct_map_filter)
  ultimately show ?thesis by simp
qed

lemma fold_catStep:
  assumes "\<forall>c\<in>set cats. lm (settingKey c) = Some (bl c)"
  shows "fold (catStep lm p) cats (Some (sc, t)) =
           Some (fold (\<lambda>c s. s(settingKey c \<mapsto> toFixed 2 (catZ c (bl c) p))) cats sc,
                 t + sum_list (map (\<lambda>c. catZ c (bl c) p) cats))"
  using assms
proof (induction cats arbitrary: sc t)
  case Nil
  then show ?case by simp
next
  case (Cons c cats)
  have step: "catStep lm p c (Some (sc, t)) =
                Some (sc(settingKey c \<mapsto> toFixed 2 (catZ c (bl c) p)), t + catZ c (bl c) p)"
    using Cons.prems by (simp add: catStep_def Let_def)
  show ?case using Cons.prems by (simp add: step Cons.IH add.assoc)
qed

lemma fold_scores_notin:
  "k \<notin> settingKey ` set cats \<Longrightarrow> fold (\<lambda>c s. s(settingKey c \<mapsto> g c)) cats sc k = sc k"
  by (induction cats arbitrary: sc) auto

lemma fold_scores_lookup:
  assumes "distinct (map settingKey cats)" and "c \<in> set cats"
  shows "fold (\<lambda>c s. s(settingKey c \<mapsto> g c)) cats sc (settingKey c) = Some (g c)"
  using assms
proof (induction cats arbitrary: sc)
  case Nil
  then show ?case by simp
next
  case (Cons a cats)
  show ?case
  proof (cases "c = a")
    case True
    with Cons.prems(1) have ni: "settingKey c \<notin> settingKey ` set cats" by auto
    have "fold (\<lambda>c s. s(settingKey c \<mapsto> g c)) (a # cats) sc (settingKey c)
            = fold (\<lambda>c s. s(settingKey c \<mapsto> g c)) cats (sc(settingKey a \<mapsto> g a)) (settingKey c)"
      by simp
    also have "\<dots> = (sc(settingKey a \<mapsto> g a)) (settingKey c)"
      by (rule fold_scores_notin[OF ni])
    also have "\<dots> = Some (g c)" using True by simp
    finally show ?thesis .
  next
    case False
    with Cons show ?thesis by auto
  qed
qed

lemma playerEntry_eq:
  assumes "\<forall>c\<in>set cats. lm (settingKey c) = Some (bl c)"
  shows "playerEntry cats lm p =
           Some \<lparr>name = playerNameOf p,
                 scores = fold (\<lambda>c s. s(settingKey c \<mapsto> toFixed 2 (catZ c (bl c) p))) cats Map.empty,
                 totalZ = toFixed 2 (sum_list (map (\<lambda>c. catZ c (bl c) p) cats))\<rparr>"
  by (simp add: playerEntry_def fold_catStep[OF assms] playerNameOf_def)

lemma fold_resultStep:
  assumes "\<And>p. playerEntry cats lm p = Some (ent p)"
  shows "fold (resultStep cats lm st) ids (Some r) =
           Some (\<lambda>pid. if pid \<in> set ids
                        then (case st pid of None \<Rightarrow> r pid
                              | Some p \<Rightarrow> if gpOf p = 0 then r pid else Some (ent p))
                        else r pid)"
proof (induction ids arbitrary: r)
  case Nil
  then show ?case by simp
next
  case (Cons a ids)
  show ?case
  proof (cases "st a")
    case None
    then have "resultStep cats lm st a (Some r) = Some r" by (simp add: resultStep_def)
    then show ?thesis using None by (auto simp: Cons.IH split: option.splits)
  next
    case (Some p)
    show ?thesis
    proof (cases "gpOf p = 0")
      case True
      then have "resultStep cats lm st a (Some r) = Some r" using Some by (simp add: resultStep_def)
      then show ?thesis using Some True by (auto simp: Cons.IH split: option.splits)
    next
      case False
      then have "resultStep cats lm st a (Some r) = Some (r(a \<mapsto> ent p))"
        using Some assms by (simp add: resultStep_def)
      then show ?thesis using Some False by (auto simp: Cons.IH split: option.splits)
    qed
  qed
qed

lemma calculateZScores_eq:
  "calculateZScores rs st ss =
     Some (if activeCats ss = [] \<or> populationStats rs st = [] then Map.empty
           else (\<lambda>pid. if pid \<in> set (populationIds rs)
                        then (case st pid of None \<Rightarrow> None
                              | Some p \<Rightarrow> if gpOf p = 0 then None
                                          else Some (entryFor ss (populationStats rs st) p))
                        else None))"
proof -
  let ?cats = "activeCats ss" and ?pop = "populationStats rs st"
  have pe: "\<And>p. playerEntry ?cats (leagueMath ?cats ?pop) p = Some (entryFor ss ?pop p)"
    unfolding entryFor_def
    by (rule playerEntry_eq) (simp add: activeCats_lookup)
  show ?thesis
    by (auto simp: calculateZScores_def Let_def fold_resultStep[OF pe] split: option.splits)
qed

lemmas ex_defs = exRosters_def exA_def exB_def exC_def exStats_def

lemma gp_ex: "gpOf exA = 10" "gpOf exB = 10" "gpOf exC = 10"
  by (simp_all add: gpOf_def numField_def ex_defs)

lemma exIds: "populationIds exRosters = [''a'', ''b'', ''c'', ''x'']"
  by (simp add: populationIds_def exRosters_def)

lemma exPop: "populationStats exRosters exStats = [exA, exB, exC]"
  by (simp add: populationStats_def exIds exStats_def gp_ex)

lemma exCats_to: "activeCats [(''to'', - 1)] = [\<lparr>settingKey = ''to'', statKey = ''to'', weight = - 1\<rparr>]"
  by (simp add: activeCats_def statKeyOf_def SETTINGS_TO_STATS_MAP_def IGNORED_KEYS_def)

lemma exVals_to: "catValues \<lparr>settingKey = ''to'', statKey = ''to'', weight = w\<rparr> [exA, exB, exC] = [11/10, 13/10, 0]"
  by (simp add: catValues_def IMPACT_STATS_def PURE_RATIO_STATS_def gp_ex)
     (simp add: numField_def ex_defs)

lemma std_ex: "std [11/10, 13/10, 0] = 7/10"
proof -
  have "variance [11/10, 13/10, 0] = (7/10)\<^sup>2"
    by (simp add: variance_def mean_def power2_eq_square)
  then show ?thesis by (simp add: std_def)
qed

lemma exBase_to: "baseline \<lparr>settingKey = ''to'', statKey = ''to'', weight = w\<rparr> [exA, exB, exC]
   = \<lparr>avg = 4/5, stdB = 7/10, avgPct = 0\<rparr>"
  by (simp add: baseline_def exVals_to std_ex Let_def leagueAvgPct_def IMPACT_STATS_def)
     (simp add: mean_def)

lemma exZ_to_a: "catZ \<lparr>settingKey = ''to'', statKey = ''to'', weight = - 1\<rparr> \<lparr>avg = 4/5, stdB = 7/10, avgPct = 0\<rparr> exA = - (3/7)"
  by (simp add: catZ_def playerValue_def IMPACT_STATS_def PURE_RATIO_STATS_def gp_ex Let_def)
     (simp add: numField_def ex_defs)

lemma exLookup: "exStats ''a'' = Some exA" "exStats ''b'' = Some exB" "exStats ''c'' = Some exC"
  "exStats ''x'' = None"
  by (simp_all add: exStats_def)

lemma ex_to_score_a:
  "storedScore (calculateZScores exRosters exStats [(''to'', - 1)]) ''a'' ''to'' = Some (- (43/100))"
  by (simp add: calculateZScores_eq storedScore_def exPop exIds exCats_to entryFor_def exBase_to
        exZ_to_a exLookup gp_ex toFixed_def)

section \<open>C1: league average of an Impact category\<close>

lemma entry_exists:
  assumes "calculateZScores rs st ss = Some res" and "res pid = Some e"
  shows "\<exists>p. st pid = Some p \<and> gpOf p \<noteq> 0 \<and> pid \<in> set (populationIds rs)
             \<and> e = entryFor ss (populationStats rs st) p"
  using assms unfolding calculateZScores_eq
  by (auto split: if_splits option.splits)

lemma entryFor_score:
  assumes "distinct (map fst ss)" and "c \<in> set (activeCats ss)"
  shows "scores (entryFor ss pop p) (settingKey c) = Some (toFixed 2 (catZ c (baseline c pop) p))"
  unfolding entryFor_def
  using fold_scores_lookup[OF activeCats_distinct[OF assms(1)] assms(2),
          of "\<lambda>c. toFixed 2 (catZ c (baseline c pop) p)" Map.empty]
  by simp

lemma entryFor_total:
  "totalZ (entryFor ss pop p) = toFixed 2 (sum_list (map (\<lambda>c. catZ c (baseline c pop) p) (activeCats ss)))"
  by (simp add: entryFor_def)

lemma leagueAvgPct_impact:
  assumes "statKey cat \<in> set IMPACT_STATS"
  shows "leagueAvgPct cat pop =
           (if sum_list (map (\<lambda>p. snd (getSplitStats p (splitType (statKey cat)))) pop) > 0
            then sum_list (map (\<lambda>p. fst (getSplitStats p (splitType (statKey cat)))) pop)
                 / sum_list (map (\<lambda>p. snd (getSplitStats p (splitType (statKey cat)))) pop)
            else 0)"
  using assms by (simp add: leagueAvgPct_def splitTotals_sum)

lemma catValues_impact:
  assumes "statKey cat \<in> set IMPACT_STATS"
  shows "catValues cat pop =
           map (\<lambda>p. fst (getSplitStats p (splitType (statKey cat))) / gpOf p
                     - snd (getSplitStats p (splitType (statKey cat))) / gpOf p * leagueAvgPct cat pop) pop"
  using assms by (simp add: catValues_def Let_def case_prod_beta)

lemma playerValue_impact:
  assumes "statKey cat \<in> set IMPACT_STATS"
  shows "playerValue cat math p =
           fst (getSplitStats p (splitType (statKey cat))) / gpOf p
           - snd (getSplitStats p (splitType (statKey cat))) / gpOf p * avgPct math"
  using assms by (simp add: playerValue_def Let_def case_prod_beta)

lemma baseline_avgPct: "avgPct (baseline cat pop) = leagueAvgPct cat pop"
  by (simp add: baseline_def Let_def)

lemma calculateZScores_entry:
  assumes "calculateZScores rs st ss = Some res" and "st pid = Some p" and "gpOf p \<noteq> 0"
      and "pid \<in> set (populationIds rs)" and "activeCats ss \<noteq> []" and "populationStats rs st \<noteq> []"
  shows "res pid = Some (entryFor ss (populationStats rs st) p)"
  using assms unfolding calculateZScores_eq by auto

lemma catZ_explicit:
  "catZ cat math p
     = (if weight cat < 0 then - 1 else 1) * ((playerValue cat math p - avg math) / stdB math) * \<bar>weight cat\<bar>"
proof (cases "weight cat < 0")
  case True
  have "x * (- 1) * w = - 1 * x * w" for x w :: real by simp
  with True show ?thesis by (simp only: catZ_def Let_def if_True)
next
  case False
  then show ?thesis by (simp add: catZ_def Let_def)
qed

lemma exCats_fg: "activeCats [(''fg_pct'', 2)] = [exCatFG]"
  by (simp add: activeCats_def statKeyOf_def SETTINGS_TO_STATS_MAP_def IGNORED_KEYS_def exCatFG_def)

lemma exImpact_fg: "statKey exCatFG \<in> set IMPACT_STATS"
  by (simp add: exCatFG_def IMPACT_STATS_def)

lemma exSplit_fg:
  "getSplitStats exShooterA (splitType (statKey exCatFG)) = (80, 100)"
  "getSplitStats exShooterB (splitType (statKey exCatFG)) = (100, 100)"
  "getSplitStats exShooterC (splitType (statKey exCatFG)) = (20, 200)"
  "getSplitStats exNegShooter (splitType (statKey exCatFG)) = (1, - 2)"
  by (simp_all add: exCatFG_def splitType_def numField_def exShooterA_def exShooterB_def
        exShooterC_def exNegShooter_def)

lemma gp_exFG: "gpOf exShooterA = 10" "gpOf exShooterB = 10" "gpOf exShooterC = 10" "gpOf exNegShooter = 1"
  by (simp_all add: gpOf_def numField_def exShooterA_def exShooterB_def exShooterC_def exNegShooter_def)

lemma exLookupFG: "exStatsFG ''a'' = Some exShooterA" "exStatsFG ''b'' = Some exShooterB"
  "exStatsFG ''c'' = Some exShooterC" "exStatsFG ''x'' = None"
  by (simp_all add: exStatsFG_def)

lemma exPopFG: "populationStats exRosters exStatsFG = [exShooterA, exShooterB, exShooterC]"
  by (simp add: populationStats_def exIds exLookupFG gp_exFG)

lemma exPopNeg: "populationStats exRostersNeg exStatsNeg = [exNegShooter]"
  by (simp add: populationStats_def populationIds_def exRostersNeg_def exStatsNeg_def gp_exFG)

lemma std_3_5_m8: "std [3, 5, - 8] = 7" "mean [3, 5, - 8] = 0"
proof -
  have "variance [3, 5, - 8] = 7\<^sup>2"
    by (simp add: variance_def mean_def power2_eq_square)
  then show "std [3, 5, - 8] = 7" by (simp add: std_def)
  show "mean [3, 5, - 8] = 0" by (simp add: mean_def)
qed

text \<open>
  Claim C1 as stated fails for a negative attempt total: with one make and minus two
  attempts in the population, the league average rate is 0, not the total made divided
  by the total attempted.
\<close>

theorem impact_league_average_counterexample:
  "sum_list (map (\<lambda>p. fst (getSplitStats p (splitType (statKey exCatFG))))
      (populationStats exRostersNeg exStatsNeg)) = 1
   \<and> sum_list (map (\<lambda>p. snd (getSplitStats p (splitType (statKey exCatFG))))
      (populationStats exRostersNeg exStatsNeg)) = - 2
   \<and> leagueAvgPct exCatFG (populationStats exRostersNeg exStatsNeg) = 0
   \<and> avgPct (baseline exCatFG (populationStats exRostersNeg exStatsNeg)) = 0"
  by (simp add: exPopNeg exSplit_fg leagueAvgPct_impact[OF exImpact_fg] baseline_avgPct)

text \<open>
  Claim C1, amended. For every active Impact (percentage) category, over the population
  of the league: the league average rate is the total made divided by the total
  attempted when the total attempted is positive, and 0 otherwise; the value of every
  player of the population is \<open>perGameMade - perGameAttempted * rate\<close>; the baseline
  stored under the category's key holds the mean and the floored standard deviation of
  these values, and that rate. For every rostered player with stats and \<open>gp > 0\<close> the
  engine returns an entry, and the score stored in it for the category is the z-score
  of the player's value, computed with the baseline's rate (not a rate of the player's
  own), its mean and its std, with the sign and the magnitude of the weight, rounded to
  2 decimals.
\<close>

theorem impact_league_average:
  fixes rs :: "Roster list" and st :: AllStats and ss :: ScoringSettings and cat :: Cat
  defines "pop \<equiv> populationStats rs st"
  defines "made \<equiv> \<lambda>p. fst (getSplitStats p (splitType (statKey cat)))"
  defines "att \<equiv> \<lambda>p. snd (getSplitStats p (splitType (statKey cat)))"
  defines "rate \<equiv> (if sum_list (map att pop) > 0 then sum_list (map made pop) / sum_list (map att pop) else 0)"
  defines "val \<equiv> \<lambda>p. made p / gpOf p - att p / gpOf p * rate"
  defines "sd \<equiv> (if std (map val pop) = 0 then 1 else std (map val pop))"
  assumes active: "cat \<in> set (activeCats ss)"
      and impact: "statKey cat \<in> set IMPACT_STATS"
      and keys: "distinct (map fst ss)"
  shows "leagueAvgPct cat pop = rate
         \<and> catValues cat pop = map val pop
         \<and> leagueMath (activeCats ss) pop (settingKey cat)
             = Some \<lparr>avg = mean (map val pop), stdB = sd, avgPct = rate\<rparr>
         \<and> (\<forall>pid p. pid \<in> set (populationIds rs) \<and> st pid = Some p \<and> 0 < gpOf p \<longrightarrow>
               (\<exists>res e. calculateZScores rs st ss = Some res \<and> res pid = Some e
                  \<and> scores e (settingKey cat)
                      = Some (toFixed 2 ((if weight cat < 0 then - 1 else 1)
                                         * ((val p - mean (map val pop)) / sd) * \<bar>weight cat\<bar>))))"
proof -
  have a: "leagueAvgPct cat pop = rate"
    unfolding rate_def made_def att_def by (rule leagueAvgPct_impact[OF impact])
  have b: "catValues cat pop = map val pop"
    unfolding val_def made_def att_def a[symmetric] by (rule catValues_impact[OF impact])
  have bl: "baseline cat pop = \<lparr>avg = mean (map val pop), stdB = sd, avgPct = rate\<rparr>"
    by (simp add: baseline_def Let_def b a sd_def)
  have c: "leagueMath (activeCats ss) pop (settingKey cat)
             = Some \<lparr>avg = mean (map val pop), stdB = sd, avgPct = rate\<rparr>"
    unfolding bl[symmetric] by (rule activeCats_lookup[OF active])
  have pv: "\<And>p. playerValue cat (baseline cat pop) p = val p"
    unfolding val_def made_def att_def by (simp add: playerValue_impact[OF impact] bl)
  have d: "\<forall>pid p. pid \<in> set (populationIds rs) \<and> st pid = Some p \<and> 0 < gpOf p \<longrightarrow>
               (\<exists>res e. calculateZScores rs st ss = Some res \<and> res pid = Some e
                  \<and> scores e (settingKey cat)
                      = Some (toFixed 2 ((if weight cat < 0 then - 1 else 1)
                                         * ((val p - mean (map val pop)) / sd) * \<bar>weight cat\<bar>)))"
  proof (intro allI impI)
    fix pid p
    assume h: "pid \<in> set (populationIds rs) \<and> st pid = Some p \<and> 0 < gpOf p"
    obtain res where r: "calculateZScores rs st ss = Some res"
      using calculateZScores_eq by blast
    have cats: "activeCats ss \<noteq> []" using active by auto
    have "Some p \<in> set (filter (\<lambda>stat. case stat of None \<Rightarrow> False | Some s \<Rightarrow> gpOf s > 0)
                          (map st (populationIds rs)))"
      using h by force
    then have "filter (\<lambda>stat. case stat of None \<Rightarrow> False | Some s \<Rightarrow> gpOf s > 0)
                 (map st (populationIds rs)) \<noteq> []"
      by (metis empty_iff empty_set)
    then have ne: "populationStats rs st \<noteq> []"
      by (simp add: populationStats_def)
    have "gpOf p \<noteq> 0" using h by simp
    then have e: "res pid = Some (entryFor ss pop p)"
      unfolding pop_def using h cats ne by (intro calculateZScores_entry[OF r]) simp_all
    have "scores (entryFor ss pop p) (settingKey cat)
            = Some (toFixed 2 ((if weight cat < 0 then - 1 else 1)
                                 * ((val p - mean (map val pop)) / sd) * \<bar>weight cat\<bar>))"
      unfolding entryFor_score[OF keys active] catZ_explicit pv by (simp add: bl)
    with r e show "\<exists>res e. calculateZScores rs st ss = Some res \<and> res pid = Some e
                  \<and> scores e (settingKey cat)
                      = Some (toFixed 2 ((if weight cat < 0 then - 1 else 1)
                                         * ((val p - mean (map val pop)) / sd) * \<bar>weight cat\<bar>))"
      by blast
  qed
  from a b c d show ?thesis by blast
qed

text \<open>
  The three shooters: the league rate is 0.5, the values are 3, 5 and \<open>-8\<close> per game,
  with mean 0 and std 7; with a weight of 2 the engine stores 0.86, 1.43 and \<open>-2.29\<close>.
\<close>

theorem impact_league_average_witness:
  "leagueAvgPct exCatFG (populationStats exRosters exStatsFG) = 1 / 2
   \<and> catValues exCatFG (populationStats exRosters exStatsFG) = [3, 5, - 8]
   \<and> storedScore (calculateZScores exRosters exStatsFG [(''fg_pct'', 2)]) ''a'' ''fg_pct'' = Some (86 / 100)
   \<and> storedScore (calculateZScores exRosters exStatsFG [(''fg_pct'', 2)]) ''b'' ''fg_pct'' = Some (143 / 100)
   \<and> storedScore (calculateZScores exRosters exStatsFG [(''fg_pct'', 2)]) ''c'' ''fg_pct'' = Some (- (229 / 100))"
proof -
  have h1: "exCatFG \<in> set (activeCats [(''fg_pct'', 2)])" by (simp add: exCats_fg)
  have h3: "distinct (map fst [(''fg_pct'', 2::real)])" by simp
  note inst = impact_league_average[OF h1 exImpact_fg h3, of exRosters exStatsFG]
  have rate: "leagueAvgPct exCatFG (populationStats exRosters exStatsFG) = 1 / 2"
    using inst by (simp add: exPopFG exSplit_fg)
  have vals: "catValues exCatFG (populationStats exRosters exStatsFG) = [3, 5, - 8]"
    using inst by (simp add: exPopFG exSplit_fg gp_exFG)
  have w: "weight exCatFG = 2" and k: "settingKey exCatFG = ''fg_pct''" by (simp_all add: exCatFG_def)
  from inst have stored: "\<forall>pid p. pid \<in> set (populationIds exRosters) \<and> exStatsFG pid = Some p \<and> 0 < gpOf p \<longrightarrow>
      (\<exists>res e. calculateZScores exRosters exStatsFG [(''fg_pct'', 2)] = Some res \<and> res pid = Some e
         \<and> scores e ''fg_pct''
             = Some (toFixed 2 (((fst (getSplitStats p (splitType (statKey exCatFG))) / gpOf p
                                  - snd (getSplitStats p (splitType (statKey exCatFG))) / gpOf p * (1 / 2))
                                 - 0) / 7 * 2)))"
    by (simp add: exPopFG exSplit_fg gp_exFG std_3_5_m8 w k)
  have sa: "storedScore (calculateZScores exRosters exStatsFG [(''fg_pct'', 2)]) ''a'' ''fg_pct'' = Some (86 / 100)"
    using stored[rule_format, of "''a''" exShooterA]
    by (auto simp: storedScore_def exIds exLookupFG gp_exFG exSplit_fg toFixed_def)
  have sb: "storedScore (calculateZScores exRosters exStatsFG [(''fg_pct'', 2)]) ''b'' ''fg_pct'' = Some (143 / 100)"
    using stored[rule_format, of "''b''" exShooterB]
    by (auto simp: storedScore_def exIds exLookupFG gp_exFG exSplit_fg toFixed_def)
  have sc: "storedScore (calculateZScores exRosters exStatsFG [(''fg_pct'', 2)]) ''c'' ''fg_pct'' = Some (- (229 / 100))"
    using stored[rule_format, of "''c''" exShooterC]
    by (auto simp: storedScore_def exIds exLookupFG gp_exFG exSplit_fg toFixed_def)
  from rate vals sa sb sc show ?thesis by blast
qed

section \<open>C2: a negative weight flips the sign\<close>

lemma catZ_negative:
  "weight cat < 0 \<Longrightarrow>
     catZ cat math p = - ((playerValue cat math p - avg math) / stdB math) * \<bar>weight cat\<bar>"
  by (simp add: catZ_def Let_def)

text \<open>
  Claim C2 as stated, with the stored z equal to \<open>-((value - mean) / std) * |weight|\<close>,
  fails: with turnovers weighted \<open>-1\<close> and 1.1, 1.3 and 0 turnovers per game, the first
  player's z is \<open>-3/7\<close> and the stored score is \<open>-0.43\<close>.
\<close>

theorem negative_weight_stored_z_counterexample:
  "storedScore (calculateZScores exRosters exStats [(''to'', - 1)]) ''a'' ''to'' = Some (- (43 / 100))
   \<and> - ((playerValue exCatTO (baseline exCatTO (populationStats exRosters exStats)) exA
           - avg (baseline exCatTO (populationStats exRosters exStats)))
          / stdB (baseline exCatTO (populationStats exRosters exStats))) * \<bar>weight exCatTO\<bar>
       = - (3 / 7)"
proof -
  have "catZ exCatTO (baseline exCatTO (populationStats exRosters exStats)) exA = - (3 / 7)"
    by (simp add: exCatTO_def exPop exBase_to exZ_to_a)
  moreover have "weight exCatTO < 0" by (simp add: exCatTO_def)
  ultimately show ?thesis
    using ex_to_score_a by (simp add: catZ_negative)
qed

text \<open>
  Claim C2, amended. For every active category with a negative weight and every player of
  the result, the stored category z is \<open>-((value - mean) / std) * |weight|\<close> rounded to
  2 decimals, where mean and std are those of the baseline stored under the category's
  key; with weight \<open>-1\<close>, mean 2 and std 1, a value of 1 is stored as \<open>+1\<close> and a
  value of 3 as \<open>-1\<close>.
\<close>

theorem negative_weight_stored_z:
  fixes rs :: "Roster list" and st :: AllStats and ss :: ScoringSettings and cat :: Cat
  defines "math \<equiv> baseline cat (populationStats rs st)"
  assumes result: "calculateZScores rs st ss = Some res"
      and entry: "res pid = Some e"
      and keys: "distinct (map fst ss)"
      and active: "cat \<in> set (activeCats ss)"
      and negative: "weight cat < 0"
  shows "leagueMath (activeCats ss) (populationStats rs st) (settingKey cat) = Some math
         \<and> (\<exists>p. st pid = Some p
               \<and> scores e (settingKey cat)
                   = Some (toFixed 2 (- ((playerValue cat math p - avg math) / stdB math) * \<bar>weight cat\<bar>))
               \<and> (weight cat = - 1 \<and> avg math = 2 \<and> stdB math = 1 \<and> playerValue cat math p = 1
                    \<longrightarrow> scores e (settingKey cat) = Some 1)
               \<and> (weight cat = - 1 \<and> avg math = 2 \<and> stdB math = 1 \<and> playerValue cat math p = 3
                    \<longrightarrow> scores e (settingKey cat) = Some (- 1)))"
proof -
  obtain p where p: "st pid = Some p" "e = entryFor ss (populationStats rs st) p"
    using entry_exists[OF result entry] by blast
  have sc: "scores e (settingKey cat)
              = Some (toFixed 2 (- ((playerValue cat math p - avg math) / stdB math) * \<bar>weight cat\<bar>))"
    unfolding math_def p(2) entryFor_score[OF keys active] catZ_negative[OF negative] ..
  have one: "weight cat = - 1 \<and> avg math = 2 \<and> stdB math = 1 \<and> playerValue cat math p = 1
               \<longrightarrow> scores e (settingKey cat) = Some 1"
    unfolding sc by (simp add: toFixed_def)
  have three: "weight cat = - 1 \<and> avg math = 2 \<and> stdB math = 1 \<and> playerValue cat math p = 3
               \<longrightarrow> scores e (settingKey cat) = Some (- 1)"
    unfolding sc by (simp add: toFixed_def)
  have "leagueMath (activeCats ss) (populationStats rs st) (settingKey cat) = Some math"
    unfolding math_def by (rule activeCats_lookup[OF active])
  with p(1) sc one three show ?thesis by blast
qed

lemma gp_exT: "gpOf exT1 = 2" "gpOf exT2 = 2" "gpOf exT3 = 2"
  by (simp_all add: gpOf_def numField_def exT1_def exT2_def exT3_def)

lemma exLookupTO: "exStatsTO ''a'' = Some exT1" "exStatsTO ''b'' = Some exT2"
  "exStatsTO ''c'' = Some exT3" "exStatsTO ''x'' = None"
  by (simp_all add: exStatsTO_def)

lemma exPopTO: "populationStats exRosters exStatsTO = [exT1, exT2, exT3]"
  by (simp add: populationStats_def exIds exLookupTO gp_exT)

lemma exValsTO: "catValues exCatTO [exT1, exT2, exT3] = [1, 2, 3]"
  by (simp add: catValues_def IMPACT_STATS_def PURE_RATIO_STATS_def gp_exT exCatTO_def)
     (simp add: numField_def exT1_def exT2_def exT3_def)

lemma std_123: "std [1, 2, 3] = 1"
  by (simp add: std_def variance_def mean_def power2_eq_square)

lemma exBaseTO: "baseline exCatTO [exT1, exT2, exT3] = \<lparr>avg = 2, stdB = 1, avgPct = 0\<rparr>"
  by (simp add: baseline_def exValsTO std_123 Let_def)
     (simp add: mean_def leagueAvgPct_def IMPACT_STATS_def exCatTO_def)

lemma exCatsTO: "activeCats [(''to'', - 1)] = [exCatTO]"
  by (simp add: exCats_to exCatTO_def)

lemma exValueTO: "playerValue exCatTO math exT1 = 1" "playerValue exCatTO math exT3 = 3"
  by (simp_all add: playerValue_def IMPACT_STATS_def PURE_RATIO_STATS_def gpOf_def exCatTO_def Let_def
        numField_def exT1_def exT3_def)

text \<open>
  In the league with 1, 2 and 3 turnovers per game and weight \<open>-1\<close>, the first player
  gets \<open>+1\<close> and the third \<open>-1\<close>.
\<close>

theorem negative_weight_stored_z_witness:
  "storedScore (calculateZScores exRosters exStatsTO [(''to'', - 1)]) ''a'' ''to'' = Some 1
   \<and> storedScore (calculateZScores exRosters exStatsTO [(''to'', - 1)]) ''c'' ''to'' = Some (- 1)"
proof -
  obtain res where r: "calculateZScores exRosters exStatsTO [(''to'', - 1)] = Some res"
    using calculateZScores_eq by blast
  have k: "distinct (map fst [(''to'', - 1::real)])" by simp
  have a: "exCatTO \<in> set (activeCats [(''to'', - 1)])" by (simp add: exCatsTO)
  have n: "weight exCatTO < 0" by (simp add: exCatTO_def)
  have ea: "res ''a'' = Some (entryFor [(''to'', - 1)] (populationStats exRosters exStatsTO) exT1)"
    by (rule calculateZScores_entry[OF r]) (simp_all add: exLookupTO gp_exT exIds exCatsTO exPopTO)
  have ec: "res ''c'' = Some (entryFor [(''to'', - 1)] (populationStats exRosters exStatsTO) exT3)"
    by (rule calculateZScores_entry[OF r]) (simp_all add: exLookupTO gp_exT exIds exCatsTO exPopTO)
  have w: "weight exCatTO = - 1" and key: "settingKey exCatTO = ''to''" by (simp_all add: exCatTO_def)
  have "scores (entryFor [(''to'', - 1)] (populationStats exRosters exStatsTO) exT1) ''to'' = Some 1"
    using negative_weight_stored_z[OF r ea k a n]
    by (simp add: exPopTO exBaseTO exLookupTO exValueTO w key toFixed_def)
  moreover have "scores (entryFor [(''to'', - 1)] (populationStats exRosters exStatsTO) exT3) ''to'' = Some (- 1)"
    using negative_weight_stored_z[OF r ec k a n]
    by (simp add: exPopTO exBaseTO exLookupTO exValueTO w key toFixed_def)
  ultimately show ?thesis
    by (simp add: storedScore_def r ea ec)
qed

section \<open>C3: the total is rounded once\<close>

lemma exCatsPR: "activeCats exSettingsPR = [exCatPts, exCatReb]"
  by (simp add: activeCats_def statKeyOf_def SETTINGS_TO_STATS_MAP_def IGNORED_KEYS_def
        exCatPts_def exCatReb_def exSettingsPR_def)

lemma exValsPR:
  "catValues exCatPts [exA, exB, exC] = [11, 13, 0]"
  "catValues exCatReb [exA, exB, exC] = [11, 13, 0]"
  by (simp_all add: catValues_def IMPACT_STATS_def PURE_RATIO_STATS_def gpOf_def exCatPts_def
        exCatReb_def numField_def ex_defs)

lemma std_11_13_0: "std [11, 13, 0] = 7"
proof -
  have "variance [11, 13, 0] = 7\<^sup>2"
    by (simp add: variance_def mean_def power2_eq_square)
  then show ?thesis by (simp add: std_def)
qed

lemma exBasePR:
  "baseline exCatPts [exA, exB, exC] = \<lparr>avg = 8, stdB = 7, avgPct = 0\<rparr>"
  "baseline exCatReb [exA, exB, exC] = \<lparr>avg = 8, stdB = 7, avgPct = 0\<rparr>"
  by (simp_all add: baseline_def exValsPR std_11_13_0 Let_def)
     (simp_all add: mean_def leagueAvgPct_def IMPACT_STATS_def exCatPts_def exCatReb_def)

lemma exZ_PR_b:
  "catZ exCatPts \<lparr>avg = 8, stdB = 7, avgPct = 0\<rparr> exB = 5 / 7"
  "catZ exCatReb \<lparr>avg = 8, stdB = 7, avgPct = 0\<rparr> exB = 5 / 7"
  by (simp_all add: catZ_def playerValue_def IMPACT_STATS_def PURE_RATIO_STATS_def gpOf_def Let_def
        exCatPts_def exCatReb_def numField_def ex_defs)

lemma exEntryPR_b:
  "totalZ (entryFor exSettingsPR [exA, exB, exC] exB) = 143 / 100"
  "scores (entryFor exSettingsPR [exA, exB, exC] exB) ''pts'' = Some (71 / 100)"
  "scores (entryFor exSettingsPR [exA, exB, exC] exB) ''reb'' = Some (71 / 100)"
  by (simp_all add: entryFor_def exCatsPR exBasePR exZ_PR_b toFixed_def)
     (simp_all add: exCatPts_def exCatReb_def)

text \<open>
  Claim C3. For every player of the result, \<open>totalZ\<close> is the sum of the unrounded
  category z values, rounded to 2 decimals once; each entry of the scores map is the
  category z rounded to 2 decimals on its own; and there are results where the sum of
  the rounded entries is not \<open>totalZ\<close>.
\<close>

theorem totalZ_rounded_once:
  fixes rs :: "Roster list" and st :: AllStats and ss :: ScoringSettings
  defines "pop \<equiv> populationStats rs st"
  assumes result: "calculateZScores rs st ss = Some res"
      and entry: "res pid = Some e"
      and keys: "distinct (map fst ss)"
  shows "(\<exists>p. st pid = Some p
             \<and> totalZ e = toFixed 2 (sum_list (map (\<lambda>c. catZ c (baseline c pop) p) (activeCats ss)))
             \<and> (\<forall>c\<in>set (activeCats ss).
                    scores e (settingKey c) = Some (toFixed 2 (catZ c (baseline c pop) p))))
         \<and> (\<exists>rs' st' ss' res' pid' e'.
                calculateZScores rs' st' ss' = Some res' \<and> res' pid' = Some e' \<and> distinct (map fst ss')
                \<and> totalZ e' \<noteq> sum_list (map (\<lambda>c. the (scores e' (settingKey c))) (activeCats ss')))"
proof -
  obtain p where p: "st pid = Some p" "e = entryFor ss pop p"
    using entry_exists[OF result entry] unfolding pop_def by blast
  have general: "\<exists>p. st pid = Some p
             \<and> totalZ e = toFixed 2 (sum_list (map (\<lambda>c. catZ c (baseline c pop) p) (activeCats ss)))
             \<and> (\<forall>c\<in>set (activeCats ss).
                    scores e (settingKey c) = Some (toFixed 2 (catZ c (baseline c pop) p)))"
    using p entryFor_score[OF keys] entryFor_total by blast
  obtain res' where r: "calculateZScores exRosters exStats exSettingsPR = Some res'"
    using calculateZScores_eq by blast
  have eb: "res' ''b'' = Some (entryFor exSettingsPR (populationStats exRosters exStats) exB)"
    by (rule calculateZScores_entry[OF r]) (simp_all add: exLookup gp_ex exIds exCatsPR exPop)
  have d: "distinct (map fst exSettingsPR)" by (simp add: exSettingsPR_def)
  have "totalZ (entryFor exSettingsPR (populationStats exRosters exStats) exB)
          \<noteq> sum_list (map (\<lambda>c. the (scores (entryFor exSettingsPR (populationStats exRosters exStats) exB)
                                       (settingKey c))) (activeCats exSettingsPR))"
    unfolding exPop exCatsPR by (simp add: exEntryPR_b) (simp add: exCatPts_def exCatReb_def exEntryPR_b)
  with r eb d have "\<exists>rs' st' ss' res' pid' e'.
                calculateZScores rs' st' ss' = Some res' \<and> res' pid' = Some e' \<and> distinct (map fst ss')
                \<and> totalZ e' \<noteq> sum_list (map (\<lambda>c. the (scores e' (settingKey c))) (activeCats ss'))"
    by blast
  with general show ?thesis by blast
qed

text \<open>
  With points and rebounds weighted 1, the second player of the example has the category
  z \<open>5/7\<close> twice: each is stored as 0.71, the total as 1.43.
\<close>

theorem totalZ_rounded_once_witness:
  "storedTotal (calculateZScores exRosters exStats exSettingsPR) ''b'' = Some (143 / 100)
   \<and> storedScore (calculateZScores exRosters exStats exSettingsPR) ''b'' ''pts'' = Some (71 / 100)
   \<and> storedScore (calculateZScores exRosters exStats exSettingsPR) ''b'' ''reb'' = Some (71 / 100)"
proof -
  obtain res where r: "calculateZScores exRosters exStats exSettingsPR = Some res"
    using calculateZScores_eq by blast
  have eb: "res ''b'' = Some (entryFor exSettingsPR (populationStats exRosters exStats) exB)"
    by (rule calculateZScores_entry[OF r]) (simp_all add: exLookup gp_ex exIds exCatsPR exPop)
  have d: "distinct (map fst exSettingsPR)" by (simp add: exSettingsPR_def)
  have k: "settingKey exCatPts = ''pts''" "settingKey exCatReb = ''reb''"
    by (simp_all add: exCatPts_def exCatReb_def)
  have "totalZ (entryFor exSettingsPR (populationStats exRosters exStats) exB) = 143 / 100
        \<and> scores (entryFor exSettingsPR (populationStats exRosters exStats) exB) ''pts'' = Some (71 / 100)
        \<and> scores (entryFor exSettingsPR (populationStats exRosters exStats) exB) ''reb'' = Some (71 / 100)"
    using totalZ_rounded_once[OF r eb d]
    by (simp add: exLookup exCatsPR exPop exBasePR exZ_PR_b k toFixed_def)
  then show ?thesis by (simp add: storedTotal_def storedScore_def r eb)
qed

section \<open>C4: mean and standard deviation of a baseline\<close>

lemma exPopAC: "populationStats exRostersAC exStatsTO = [exT1, exT3]"
  by (simp add: populationStats_def populationIds_def exRostersAC_def exLookupTO gp_exT)

lemma exValsAC: "catValues exCatTO [exT1, exT3] = [1, 3]"
  by (simp add: catValues_def IMPACT_STATS_def PURE_RATIO_STATS_def gpOf_def exCatTO_def
        numField_def exT1_def exT3_def)

lemma sqrt2_bounds: "1414 / 1000 < sqrt 2" "sqrt 2 < 1415 / 1000"
proof -
  have "sqrt ((1414 / 1000)\<^sup>2) < sqrt 2"
    by (subst real_sqrt_less_iff) (simp add: power2_eq_square)
  then show "1414 / 1000 < sqrt 2" by simp
  have "sqrt 2 < sqrt ((1415 / 1000)\<^sup>2)"
    by (subst real_sqrt_less_iff) (simp add: power2_eq_square)
  then show "sqrt 2 < 1415 / 1000" by simp
qed

lemma toFixed_inv_sqrt2: "toFixed 2 (1 / sqrt 2) = 71 / 100"
proof -
  have pos: "0 < sqrt 2" by simp
  have lo: "(71::real) \<le> 1 / sqrt 2 * 100 + 1 / 2"
  proof -
    have "141 / 2 * sqrt 2 \<le> 100" using sqrt2_bounds(2) by simp
    then have "141 / 2 \<le> 100 / sqrt 2" using pos by (simp add: pos_le_divide_eq)
    then show ?thesis by simp
  qed
  have hi: "1 / sqrt 2 * 100 + 1 / 2 < (72::real)"
  proof -
    have "100 < 143 / 2 * sqrt 2" using sqrt2_bounds(1) by simp
    then have "100 / sqrt 2 < 143 / 2" using pos by (simp add: pos_divide_less_eq)
    then show ?thesis by simp
  qed
  have "\<lfloor>1 / sqrt 2 * 100 + 1 / 2\<rfloor> = 71"
    using lo hi by (intro floor_unique) simp_all
  then show ?thesis by (simp add: toFixed_def)
qed

lemma exBaseAC: "baseline exCatTO [exT1, exT3] = \<lparr>avg = 2, stdB = sqrt 2, avgPct = 0\<rparr>"
proof -
  have b: "std [1, 3] = sqrt 2"
    by (simp add: std_def variance_def mean_def power2_eq_square)
  show ?thesis
    by (simp add: baseline_def exValsAC b Let_def)
       (simp add: mean_def leagueAvgPct_def IMPACT_STATS_def exCatTO_def)
qed

lemma exIdsAC: "populationIds exRostersAC = [''a'', ''c'']"
  by (simp add: populationIds_def exRostersAC_def)

lemma exScoreAC:
  "storedScore (calculateZScores exRostersAC exStatsTO [(''to'', - 1)]) ''a'' ''to'' = Some (71 / 100)"
proof -
  obtain res where r: "calculateZScores exRostersAC exStatsTO [(''to'', - 1)] = Some res"
    using calculateZScores_eq by blast
  have ea: "res ''a'' = Some (entryFor [(''to'', - 1)] (populationStats exRostersAC exStatsTO) exT1)"
    by (rule calculateZScores_entry[OF r])
       (simp_all add: exLookupTO gp_exT exCatsTO exPopAC exIdsAC)
  have z: "catZ exCatTO \<lparr>avg = 2, stdB = sqrt 2, avgPct = 0\<rparr> exT1 = 1 / sqrt 2"
    by (simp add: catZ_def exValueTO Let_def) (simp add: exCatTO_def)
  have "scores (entryFor [(''to'', - 1)] [exT1, exT3] exT1) ''to'' = Some (toFixed 2 (1 / sqrt 2))"
    by (simp add: entryFor_def exCatsTO exBaseAC z) (simp add: exCatTO_def)
  then show ?thesis
    by (simp add: storedScore_def r ea exPopAC toFixed_inv_sqrt2)
qed

text \<open>
  Claim C4 as stated, with the population standard deviation, fails: for two players
  with 1 and 3 turnovers per game the population standard deviation is 1, and the
  baseline's std is \<open>sqrt 2\<close>; with turnovers weighted \<open>-1\<close> the first player's
  stored z is 0.71, where a divisor of 1 would give 1.
\<close>

theorem baseline_std_counterexample:
  "populationStd (catValues exCatTO (populationStats exRostersAC exStatsTO)) = 1
   \<and> stdB (baseline exCatTO (populationStats exRostersAC exStatsTO)) = sqrt 2
   \<and> stdB (baseline exCatTO (populationStats exRostersAC exStatsTO))
       \<noteq> populationStd (catValues exCatTO (populationStats exRostersAC exStatsTO))
   \<and> storedScore (calculateZScores exRostersAC exStatsTO [(''to'', - 1)]) ''a'' ''to'' = Some (71 / 100)"
proof -
  have a: "populationStd [1, 3] = 1"
    by (simp add: populationStd_def mean_def power2_eq_square)
  show ?thesis
    by (simp add: exPopAC exValsAC a exBaseAC exScoreAC)
qed

lemma variance_nonneg: "values \<noteq> [] \<Longrightarrow> 0 \<le> variance values"
proof -
  assume ne: "values \<noteq> []"
  have s: "0 \<le> sum_list (map (\<lambda>v. (v - mean values)\<^sup>2) values)"
    by (intro sum_list_nonneg) auto
  show ?thesis
  proof (cases "length values = 1")
    case True
    then show ?thesis by (simp add: variance_def)
  next
    case False
    with ne have "2 \<le> length values" by (cases "values") (auto simp: Suc_le_eq)
    then have "0 < real (length values) - 1" by simp
    with s False show ?thesis by (simp add: variance_def)
  qed
qed

lemma catValues_length: "length (catValues cat pop) = length pop"
  by (simp add: catValues_def)

text \<open>
  Claim C4, amended. For every category and every non-empty population, the baseline
  mean is the arithmetic mean of the per-player values; the baseline std is their
  sample standard deviation (squared deviations divided by \<open>n - 1\<close>, and 0 for a
  single value), replaced by 1 when it is 0; so the divisor of the z-score is positive.
\<close>

theorem baseline_mean_and_std:
  fixes cat :: Cat and pop :: "PlayerStats list"
  defines "values \<equiv> catValues cat pop"
  assumes nonempty: "pop \<noteq> []"
  shows "length values = length pop
         \<and> avg (baseline cat pop) = sum_list values / real (length values)
         \<and> std values = (if length values = 1 then 0
                          else sqrt (sum_list (map (\<lambda>v. (v - sum_list values / real (length values))\<^sup>2) values)
                                     / (real (length values) - 1)))
         \<and> stdB (baseline cat pop) = (if std values = 0 then 1 else std values)
         \<and> 0 < stdB (baseline cat pop)"
proof -
  have len: "length values = length pop" unfolding values_def by (rule catValues_length)
  with nonempty have ne: "values \<noteq> []" by auto
  have m: "avg (baseline cat pop) = sum_list values / real (length values)"
    by (simp add: baseline_def Let_def values_def mean_def)
  have s: "std values = (if length values = 1 then 0
                          else sqrt (sum_list (map (\<lambda>v. (v - sum_list values / real (length values))\<^sup>2) values)
                                     / (real (length values) - 1)))"
    by (simp add: std_def variance_def mean_def)
  have b: "stdB (baseline cat pop) = (if std values = 0 then 1 else std values)"
    by (simp add: baseline_def Let_def values_def)
  have "0 \<le> std values" using variance_nonneg[OF ne] by (simp add: std_def)
  then have "0 < stdB (baseline cat pop)" unfolding b by auto
  with len m s b show ?thesis by blast
qed

text \<open>
  Points per game 11, 13 and 0: mean 8, std 7.
\<close>

theorem baseline_mean_and_std_witness:
  "populationStats exRosters exStats \<noteq> []
   \<and> avg (baseline exCatPts (populationStats exRosters exStats)) = 8
   \<and> stdB (baseline exCatPts (populationStats exRosters exStats)) = 7"
proof -
  have ne: "populationStats exRosters exStats \<noteq> []" by (simp add: exPop)
  have v: "variance [11, 13, 0] = 7\<^sup>2"
    by (simp add: variance_def mean_def power2_eq_square)
  have "avg (baseline exCatPts (populationStats exRosters exStats)) = 8
        \<and> stdB (baseline exCatPts (populationStats exRosters exStats)) = 7"
    using baseline_mean_and_std[OF ne, of exCatPts]
    by (simp add: exPop exValsPR std_def v)
  with ne show ?thesis by blast
qed

section \<open>C5: the population\<close>

lemma populationIds_fold:
  "fold (\<lambda>roster ids. case players roster of None \<Rightarrow> ids | Some ps \<Rightarrow> ids @ ps) rs acc
     = acc @ concat (map playersOf rs)"
  by (induction rs arbitrary: acc) (auto simp: playersOf_def split: option.splits)

lemma populationIds_concat: "populationIds rs = concat (map playersOf rs)"
  by (simp add: populationIds_def populationIds_fold)

lemma populationStats_filter:
  "populationStats rs st =
     map (\<lambda>pid. the (st pid))
       (filter (\<lambda>pid. case st pid of None \<Rightarrow> False | Some s \<Rightarrow> 0 < gpOf s) (populationIds rs))"
  by (simp add: populationStats_def filter_map comp_def)

lemma calculateZScores_absent:
  assumes "calculateZScores rs st ss = Some res" and "st pid = None"
  shows "res pid = None"
  using assms unfolding calculateZScores_eq by (auto split: if_splits)

lemma exPopDup: "populationStats exRostersDup exStatsTO = [exT1, exT2, exT1]"
  by (simp add: populationStats_def populationIds_def exRostersDup_def exLookupTO gp_exT)

lemma exSpecPopDup: "specPopulation exRostersDup exStatsTO = [exT1, exT2]"
  by (simp add: specPopulation_def unionIds_def playersOf_def exRostersDup_def exLookupTO gp_exT)

lemma exValsDup:
  "catValues exCatTO [exT1, exT2, exT1] = [1, 2, 1]"
  "catValues exCatTO [exT1, exT2] = [1, 2]"
  by (simp_all add: catValues_def IMPACT_STATS_def PURE_RATIO_STATS_def gpOf_def exCatTO_def
        numField_def exT1_def exT2_def)

text \<open>
  Claim C5 as stated, with a duplicate-free population, fails: with the id \<open>a\<close> listed
  on two rosters, the population holds the stats of \<open>a\<close> twice, and the mean of the
  turnover baseline is 4/3; over the duplicate-free union it would be 3/2.
\<close>

theorem population_duplicates_counterexample:
  "length (populationStats exRostersDup exStatsTO) = 3
   \<and> length (specPopulation exRostersDup exStatsTO) = 2
   \<and> avg (baseline exCatTO (populationStats exRostersDup exStatsTO)) = 4 / 3
   \<and> avg (baseline exCatTO (specPopulation exRostersDup exStatsTO)) = 3 / 2"
  by (simp add: exPopDup exSpecPopDup baseline_def Let_def exValsDup mean_def)

text \<open>
  Claim C5, amended. The population is the concatenation, in roster order, of the
  rosters' player-id lists restricted to the ids whose stats record exists and has
  \<open>gp > 0\<close>: every listed occurrence of a qualifying id contributes one value to every
  category's baseline. When no id is listed twice it is the duplicate-free union of the
  spec. Ids absent from the stats map are left out, and the engine returns a result
  with no entry for them.
\<close>

theorem population_listed_occurrences:
  fixes rs :: "Roster list" and st :: AllStats and ss :: ScoringSettings
  defines "ids \<equiv> concat (map playersOf rs)"
  defines "qualifies \<equiv> \<lambda>pid. case st pid of None \<Rightarrow> False | Some s \<Rightarrow> 0 < gpOf s"
  shows "populationIds rs = ids
         \<and> populationStats rs st = map (\<lambda>pid. the (st pid)) (filter qualifies ids)
         \<and> (\<forall>cat. length (catValues cat (populationStats rs st)) = length (filter qualifies ids))
         \<and> (distinct ids \<longrightarrow> populationStats rs st = specPopulation rs st)
         \<and> (\<exists>res. calculateZScores rs st ss = Some res \<and> (\<forall>pid. st pid = None \<longrightarrow> res pid = None))"
proof -
  have a: "populationIds rs = ids" unfolding ids_def by (rule populationIds_concat)
  have b: "populationStats rs st = map (\<lambda>pid. the (st pid)) (filter qualifies ids)"
    unfolding qualifies_def a[symmetric] by (rule populationStats_filter)
  have c: "\<forall>cat. length (catValues cat (populationStats rs st)) = length (filter qualifies ids)"
    by (simp add: catValues_length b)
  have d: "distinct ids \<longrightarrow> populationStats rs st = specPopulation rs st"
    by (simp add: populationStats_def specPopulation_def unionIds_def a ids_def distinct_remdups_id)
  obtain res where r: "calculateZScores rs st ss = Some res"
    using calculateZScores_eq by blast
  then have "\<forall>pid. st pid = None \<longrightarrow> res pid = None"
    using calculateZScores_absent by blast
  with a b c d r show ?thesis by blast
qed

text \<open>
  In the league of the example no id is listed twice: the population is that of the
  spec, three players, and the id \<open>x\<close> without stats has no entry.
\<close>

theorem population_listed_occurrences_witness:
  "distinct (concat (map playersOf exRosters))
   \<and> populationStats exRosters exStats = specPopulation exRosters exStats
   \<and> length (catValues exCatPts (populationStats exRosters exStats)) = 3
   \<and> storedTotal (calculateZScores exRosters exStats exSettingsPR) ''x'' = None"
proof -
  have d: "distinct (concat (map playersOf exRosters))"
    by (simp add: playersOf_def exRosters_def)
  note inst = population_listed_occurrences[of exRosters exStats exSettingsPR]
  have e: "populationStats exRosters exStats = specPopulation exRosters exStats"
    using inst d by blast
  have "length (catValues exCatPts (populationStats exRosters exStats))
          = length (filter (\<lambda>pid. case exStats pid of None \<Rightarrow> False | Some s \<Rightarrow> 0 < gpOf s)
                      (concat (map playersOf exRosters)))"
    using inst by blast
  then have l: "length (catValues exCatPts (populationStats exRosters exStats)) = 3"
    by (simp add: playersOf_def exRosters_def exLookup gp_ex)
  obtain res where r: "calculateZScores exRosters exStats exSettingsPR = Some res"
    and n: "\<forall>pid. exStats pid = None \<longrightarrow> res pid = None"
    using inst by blast
  have "res ''x'' = None" using n exLookup(4) by blast
  then have "storedTotal (calculateZScores exRosters exStats exSettingsPR) ''x'' = None"
    by (simp add: storedTotal_def r)
  with d e l show ?thesis by blast
qed

section \<open>C6: trend records and their classification\<close>





lemma map_filter_ids:
  assumes "\<And>k t. f k = Some t \<Longrightarrow> g t = k"
  shows "map g (List.map_filter f ks) = filter (\<lambda>k. f k \<noteq> None) ks"
  using assms by (induction ks) (auto simp: List.map_filter_simps split: option.splits)

lemma set_map_filter: "set (List.map_filter f ks) = {t. \<exists>k\<in>set ks. f k = Some t}"
  by (induction ks) (auto simp: List.map_filter_simps split: option.splits)







section \<open>C8 and C10: the trade scorer\<close>

lemma tradeEntry_Some:
  "tradeEntry z need spare names idx r pid = Some rec \<Longrightarrow>
     tradePlayerId rec = pid \<and>
     (\<exists>pd. z pid = Some pd \<and> needCategoryZ rec = scoreOrZero pd need
           \<and> spareCategoryZ rec = scoreOrZero pd spare
           \<and> tradeScore rec = scoreOrZero pd need - scoreOrZero pd spare)"
  by (auto simp: tradeEntry_def Let_def split: option.splits)

lemma tradeEntry_None: "tradeEntry z need spare names idx r pid = None \<longleftrightarrow> z pid = None"
  by (auto simp: tradeEntry_def Let_def split: option.splits)

lemma tradeEntries_ids:
  "map tradePlayerId (List.map_filter (tradeEntry z need spare names idx r) ps)
     = filter (\<lambda>pid. z pid \<noteq> None) ps"
proof -
  have "map tradePlayerId (List.map_filter (tradeEntry z need spare names idx r) ps)
          = filter (\<lambda>k. tradeEntry z need spare names idx r k \<noteq> None) ps"
    by (rule map_filter_ids) (simp add: tradeEntry_Some)
  then show ?thesis by (simp add: tradeEntry_None)
qed

lemma tradeCandidates_ids_pairs:
  "map tradePlayerId
     (concat (map (\<lambda>(idx, r). if roster_id r = my then []
                               else List.map_filter (tradeEntry z need spare names idx r) (playersOf r))
                  ps))
     = filter (\<lambda>pid. z pid \<noteq> None)
         (concat (map playersOf (filter (\<lambda>r. roster_id r \<noteq> my) (map snd ps))))"
  by (induction ps) (auto simp: tradeEntries_ids)

lemma tradeCandidates_ids:
  "map tradePlayerId (tradeCandidates my rs z need spare names)
     = filter (\<lambda>pid. z pid \<noteq> None) (concat (map playersOf (filter (\<lambda>r. roster_id r \<noteq> my) rs)))"
  unfolding tradeCandidates_def tradeCandidates_ids_pairs by simp

lemma tradeCandidates_member:
  assumes "rec \<in> set (tradeCandidates my rs z need spare names)"
  shows "\<exists>pd. z (tradePlayerId rec) = Some pd \<and> needCategoryZ rec = scoreOrZero pd need
           \<and> spareCategoryZ rec = scoreOrZero pd spare
           \<and> tradeScore rec = scoreOrZero pd need - scoreOrZero pd spare"
proof -
  from assms obtain idx r pid where "tradeEntry z need spare names idx r pid = Some rec"
    unfolding tradeCandidates_def by (auto simp: set_map_filter split: if_splits)
  from tradeEntry_Some[OF this] show ?thesis by blast
qed

lemma set_sortBy: "set (sortBy (\<lambda>a b. f b - f a) xs) = set xs"
  by (simp add: sortBy_sort_key)

lemma recommendTrades_found:
  assumes "\<exists>r\<in>set rs. roster_id r = my"
  shows "recommendTrades my rs z need spare names
           = sortBy (\<lambda>a b. tradeScore b - tradeScore a) (tradeCandidates my rs z need spare names)"
proof -
  from assms have "find (\<lambda>r. roster_id r = my) rs \<noteq> None"
    by (auto simp: find_None_iff)
  then show ?thesis by (auto simp: recommendTrades_def)
qed

text \<open>
  Claim C8 as stated fails when the requesting roster id matches no roster: every
  roster is then another roster, three of their players have z-scores, and the scorer
  returns no recommendation.
\<close>

theorem trade_recommendations_counterexample:
  "recommendTrades 9 exTradeRosters exTradeZ ''ast'' ''blk'' None = []
   \<and> filter (\<lambda>pid. exTradeZ pid \<noteq> None)
        (concat (map playersOf (filter (\<lambda>r. roster_id r \<noteq> 9) exTradeRosters)))
      = [''p1'', ''p2'', ''p3'', ''p4'']"
  by (simp add: recommendTrades_def exTradeRosters_def playersOf_def exTradeZ_def)

text \<open>
  Claim C8, amended. When the requesting roster id is that of a roster of the list, the
  scorer returns one recommendation for every listed player of a roster with another id
  that has a z-score entry, and no other (no cap); each has \<open>tradeScore\<close> equal to the
  need-category z minus the spare-category z, a missing category entry counting as 0;
  and the list is sorted non-increasing by \<open>tradeScore\<close>.
\<close>

theorem trade_recommendations:
  fixes myRosterId :: int and leagueRosters :: "Roster list" and playerZScores :: PlayerZScores
    and needCategory :: string and spareCategory :: string
    and ownerDisplayNames :: "(string \<rightharpoonup> string) option"
  defines "recs \<equiv> recommendTrades myRosterId leagueRosters playerZScores needCategory spareCategory
                     ownerDisplayNames"
  defines "others \<equiv> filter (\<lambda>r. roster_id r \<noteq> myRosterId) leagueRosters"
  defines "targets \<equiv> filter (\<lambda>pid. playerZScores pid \<noteq> None) (concat (map playersOf others))"
  assumes found: "\<exists>r\<in>set leagueRosters. roster_id r = myRosterId"
  shows "mset (map tradePlayerId recs) = mset targets
         \<and> length recs = length targets
         \<and> (\<forall>rec\<in>set recs. \<exists>pd. playerZScores (tradePlayerId rec) = Some pd
               \<and> needCategoryZ rec = (case scores pd needCategory of None \<Rightarrow> 0 | Some v \<Rightarrow> v)
               \<and> spareCategoryZ rec = (case scores pd spareCategory of None \<Rightarrow> 0 | Some v \<Rightarrow> v)
               \<and> tradeScore rec = needCategoryZ rec - spareCategoryZ rec)
         \<and> sorted_wrt (\<lambda>a b. tradeScore a \<ge> tradeScore b) recs"
proof -
  let ?cands = "tradeCandidates myRosterId leagueRosters playerZScores needCategory spareCategory
                  ownerDisplayNames"
  have recs: "recs = sortBy (\<lambda>a b. tradeScore b - tradeScore a) ?cands"
    unfolding recs_def by (rule recommendTrades_found[OF found])
  have "mset (map tradePlayerId recs) = mset (map tradePlayerId ?cands)"
    unfolding recs by (simp add: mset_sortBy)
  then have m: "mset (map tradePlayerId recs) = mset targets"
    unfolding targets_def others_def by (simp add: tradeCandidates_ids)
  then have "size (mset (map tradePlayerId recs)) = size (mset targets)" by simp
  then have l: "length recs = length targets" by simp
  have e: "\<forall>rec\<in>set recs. \<exists>pd. playerZScores (tradePlayerId rec) = Some pd
               \<and> needCategoryZ rec = (case scores pd needCategory of None \<Rightarrow> 0 | Some v \<Rightarrow> v)
               \<and> spareCategoryZ rec = (case scores pd spareCategory of None \<Rightarrow> 0 | Some v \<Rightarrow> v)
               \<and> tradeScore rec = needCategoryZ rec - spareCategoryZ rec"
  proof
    fix rec assume "rec \<in> set recs"
    then have "rec \<in> set ?cands" unfolding recs by (simp add: set_sortBy)
    from tradeCandidates_member[OF this]
    show "\<exists>pd. playerZScores (tradePlayerId rec) = Some pd
               \<and> needCategoryZ rec = (case scores pd needCategory of None \<Rightarrow> 0 | Some v \<Rightarrow> v)
               \<and> spareCategoryZ rec = (case scores pd spareCategory of None \<Rightarrow> 0 | Some v \<Rightarrow> v)
               \<and> tradeScore rec = needCategoryZ rec - spareCategoryZ rec"
      by (auto simp: scoreOrZero_def)
  qed
  have s: "sorted_wrt (\<lambda>a b. tradeScore a \<ge> tradeScore b) recs"
    unfolding recs by (rule sorted_desc_sortBy)
  from m l e s show ?thesis by blast
qed

lemma exTradeCandidates:
  "map (\<lambda>r. (tradePlayerId r, tradeScore r))
     (tradeCandidates 1 exTradeRosters exTradeZ ''ast'' ''blk'' None)
     = [(''p2'', 1 / 2), (''p3'', 2), (''p4'', 0)]"
  by (simp add: tradeCandidates_def exTradeRosters_def playersOf_def List.map_filter_simps
        tradeEntry_def exTradeZ_def scoreOrZero_def Let_def upt_rec)

text \<open>
  Roster 1 asks for assists and spares blocks: the three players with z-scores of the
  rosters 2 and 3 are recommended, best first; the missing \<open>blk\<close> of \<open>p2\<close> counts as 0.
\<close>

theorem trade_recommendations_witness:
  "map (\<lambda>r. (tradePlayerId r, tradeScore r))
     (recommendTrades 1 exTradeRosters exTradeZ ''ast'' ''blk'' None)
     = [(''p3'', 2), (''p2'', 1 / 2), (''p4'', 0)]
   \<and> length (recommendTrades 1 exTradeRosters exTradeZ ''ast'' ''blk'' None) = 3"
proof -
  have found: "\<exists>r\<in>set exTradeRosters. roster_id r = 1" by (simp add: exTradeRosters_def)
  note inst = trade_recommendations[OF found, of exTradeZ "''ast''" "''blk''" None]
  have "length (recommendTrades 1 exTradeRosters exTradeZ ''ast'' ''blk'' None)
          = length (filter (\<lambda>pid. exTradeZ pid \<noteq> None)
              (concat (map playersOf (filter (\<lambda>r. roster_id r \<noteq> 1) exTradeRosters))))"
    using inst by blast
  then have l: "length (recommendTrades 1 exTradeRosters exTradeZ ''ast'' ''blk'' None) = 3"
    by (simp add: exTradeRosters_def playersOf_def exTradeZ_def)
  obtain c2 c3 c4 where c: "tradeCandidates 1 exTradeRosters exTradeZ ''ast'' ''blk'' None = [c2, c3, c4]"
    and v: "tradePlayerId c2 = ''p2''" "tradeScore c2 = 1 / 2" "tradePlayerId c3 = ''p3''"
      "tradeScore c3 = 2" "tradePlayerId c4 = ''p4''" "tradeScore c4 = 0"
    using exTradeCandidates by (auto simp: map_eq_Cons_conv)
  have "recommendTrades 1 exTradeRosters exTradeZ ''ast'' ''blk'' None = [c3, c2, c4]"
    by (simp add: recommendTrades_found[OF found] c sortBy_def v)
  with v l show ?thesis by simp
qed

text \<open>
  Claim C10. When the requesting roster id is the \<open>roster_id\<close> of no roster of the
  list, \<open>recommendTrades\<close> returns the empty list, whatever the z-scores and the
  categories.
\<close>

theorem unknown_roster_no_recommendations:
  fixes leagueRosters :: "Roster list" and playerZScores :: PlayerZScores
  assumes "\<forall>r\<in>set leagueRosters. roster_id r \<noteq> myRosterId"
  shows "recommendTrades myRosterId leagueRosters playerZScores needCategory spareCategory
           ownerDisplayNames = []"
proof -
  from assms have "find (\<lambda>r. roster_id r = myRosterId) leagueRosters = None"
    by (simp add: find_None_iff)
  then show ?thesis by (simp add: recommendTrades_def)
qed

text \<open>No roster of the example has the id 7.\<close>

theorem unknown_roster_no_recommendations_witness:
  "list_all (\<lambda>r. roster_id r \<noteq> 7) exTradeRosters
   \<and> recommendTrades 7 exTradeRosters exTradeZ ''ast'' ''blk'' (Some Map.empty) = []"
proof -
  have h: "\<forall>r\<in>set exTradeRosters. roster_id r \<noteq> 7" by (simp add: exTradeRosters_def)
  from unknown_roster_no_recommendations[OF h] h show ?thesis by (simp add: list_all_iff)
qed

section \<open>C9: the consistency estimator\<close>

text \<open>
  Claim C9. For a record with \<open>gp = 0\<close> or no \<open>gp\<close>, or no record at all, the estimator
  returns the risk level \<open>N/A\<close> with mean, std and cv all 0. For \<open>gp > 0\<close> the risk
  label is \<open>High\<close> when the estimated cv is above 0.4, \<open>Medium\<close> when it is above
  0.25, and \<open>Low\<close> otherwise.
\<close>

theorem consistency_risk_level:
  "(playerStats = None \<or> (\<exists>ps. playerStats = Some ps \<and> (num ps ''gp'' = None \<or> num ps ''gp'' = Some 0))
      \<longrightarrow> calculateConsistency playerStats = \<lparr>meanPpg = 0, stdEst = 0, cv = 0, riskLevel = ''N/A''\<rparr>)
   \<and> (\<forall>ps. playerStats = Some ps \<and> 0 < gpOf ps
         \<longrightarrow> riskLevel (calculateConsistency playerStats)
               = (if estimatedCV ps > 0.4 then ''High''
                  else if estimatedCV ps > 0.25 then ''Medium'' else ''Low'')
             \<and> cv (calculateConsistency playerStats) = toFixed 3 (estimatedCV ps))"
proof -
  have a: "playerStats = None \<or> (\<exists>ps. playerStats = Some ps \<and> (num ps ''gp'' = None \<or> num ps ''gp'' = Some 0))
      \<longrightarrow> calculateConsistency playerStats = \<lparr>meanPpg = 0, stdEst = 0, cv = 0, riskLevel = ''N/A''\<rparr>"
    by (auto simp: calculateConsistency_def gpOf_def numField_def)
  have b: "\<forall>ps. playerStats = Some ps \<and> 0 < gpOf ps
         \<longrightarrow> riskLevel (calculateConsistency playerStats)
               = (if estimatedCV ps > 0.4 then ''High''
                  else if estimatedCV ps > 0.25 then ''Medium'' else ''Low'')
             \<and> cv (calculateConsistency playerStats) = toFixed 3 (estimatedCV ps)"
    by (auto simp: calculateConsistency_def Let_def)
  from a b show ?thesis by blast
qed

lemma exUsage: "usageScore exStar = 31" "usageScore exRole = 52 / 5" "usageScore exBench = 57 / 20"
  by (simp_all add: usageScore_def gpOf_def numField_def exStar_def exRole_def exBench_def Let_def)

lemma exCV: "estimatedCV exStar = 3 / 20 + 3 / 124" "estimatedCV exRole = 7 / 20 + 1 / 52"
  "estimatedCV exBench = 1 / 2 + 1 / 114"
  by (simp_all add: estimatedCV_def exUsage Let_def)
     (simp_all add: gpOf_def numField_def exStar_def exRole_def exBench_def)

text \<open>
  The star (usage 31) is \<open>Low\<close>, the role player (usage 10.4) \<open>Medium\<close>, the bench player
  (usage 2.85) \<open>High\<close>, and the player without games \<open>N/A\<close>.
\<close>

theorem consistency_risk_level_witness:
  "calculateConsistency (Some exNoGames) = \<lparr>meanPpg = 0, stdEst = 0, cv = 0, riskLevel = ''N/A''\<rparr>
   \<and> riskLevel (calculateConsistency (Some exStar)) = ''Low''
   \<and> riskLevel (calculateConsistency (Some exRole)) = ''Medium''
   \<and> riskLevel (calculateConsistency (Some exBench)) = ''High''
   \<and> cv (calculateConsistency (Some exRole)) = 369 / 1000"
proof -
  have g: "0 < gpOf exStar" "0 < gpOf exRole" "0 < gpOf exBench"
    by (simp_all add: gpOf_def numField_def exStar_def exRole_def exBench_def)
  have z: "num exNoGames ''gp'' = Some 0" by (simp add: exNoGames_def)
  have n: "calculateConsistency (Some exNoGames) = \<lparr>meanPpg = 0, stdEst = 0, cv = 0, riskLevel = ''N/A''\<rparr>"
    using consistency_risk_level[of "Some exNoGames"] z by blast
  have s: "riskLevel (calculateConsistency (Some exStar)) = ''Low''"
    using consistency_risk_level[of "Some exStar"] g(1) by (simp add: exCV)
  have r: "riskLevel (calculateConsistency (Some exRole)) = ''Medium''"
    "cv (calculateConsistency (Some exRole)) = 369 / 1000"
    using consistency_risk_level[of "Some exRole"] g(2) by (simp_all add: exCV toFixed_def)
  have b: "riskLevel (calculateConsistency (Some exBench)) = ''High''"
    using consistency_risk_level[of "Some exBench"] g(3) by (simp add: exCV)
  from n s r b show ?thesis by blast
qed

section \<open>C7: the streaming plan of a day\<close>

lemma fold_insert_set: "fold insert xs A = set xs \<union> A"
  by (induction xs arbitrary: A) auto

lemma buildRosteredSet_fold:
  "fold (\<lambda>t rostered. fold insert (playersOf t) rostered) rs A = (\<Union>r\<in>set rs. set (playersOf r)) \<union> A"
  by (induction rs arbitrary: A) (auto simp: fold_insert_set)

lemma buildRosteredSet_eq: "buildRosteredSet rs = (\<Union>r\<in>set rs. set (playersOf r))"
  by (simp add: buildRosteredSet_def buildRosteredSet_fold)

lemma agentOf_Some:
  "agentOf pm rset entry = Some a \<Longrightarrow>
     streamPlayerId a = fst entry \<and> fst entry \<notin> rset
     \<and> team a = snd (snd (getPlayerMeta (fst entry) pm)) \<and> team a \<noteq> []
     \<and> zScore a = totalZ (snd entry)"
  by (cases entry) (auto simp: agentOf_def split: if_splits prod.splits)

lemma sorted_collectFreeAgents:
  "sorted_wrt (\<lambda>a b. zScore a \<ge> zScore b) (collectFreeAgents pz pm rset)"
  unfolding collectFreeAgents_def by (intro sorted_wrt_take sorted_desc_sortBy)

lemma collectFreeAgents_member:
  assumes "a \<in> set (collectFreeAgents pz pm rset)"
  shows "\<exists>entry\<in>set pz. agentOf pm rset entry = Some a"
proof -
  from assms have "a \<in> set (sortBy (\<lambda>a b. zScore b - zScore a) (List.map_filter (agentOf pm rset) pz))"
    unfolding collectFreeAgents_def by (rule in_set_takeD)
  then show ?thesis by (auto simp: set_sortBy set_map_filter)
qed

lemma collectFreeAgents_top:
  assumes "a \<in> set (collectFreeAgents pz pm rset)"
      and "b \<in> set (List.map_filter (agentOf pm rset) pz)"
      and "b \<notin> set (collectFreeAgents pz pm rset)"
  shows "zScore b \<le> zScore a"
proof -
  let ?S = "sortBy (\<lambda>a b. zScore b - zScore a) (List.map_filter (agentOf pm rset) pz)"
  have "b \<in> set ?S" using assms(2) by (simp add: set_sortBy)
  then have "b \<in> set (take 200 ?S) \<union> set (drop 200 ?S)"
    by (simp only: set_append[symmetric] append_take_drop_id)
  with assms(3) have bd: "b \<in> set (drop 200 ?S)" by (simp add: collectFreeAgents_def)
  have at: "a \<in> set (take 200 ?S)" using assms(1) by (simp add: collectFreeAgents_def)
  have "sorted_wrt (\<lambda>a b. zScore a \<ge> zScore b) (take 200 ?S @ drop 200 ?S)"
    by (simp only: append_take_drop_id sorted_desc_sortBy)
  then have "\<forall>x\<in>set (take 200 ?S). \<forall>y\<in>set (drop 200 ?S). zScore x \<ge> zScore y"
    unfolding sorted_wrt_append by blast
  with at bd show ?thesis by blast
qed

lemma enrich_fields:
  "map streamPlayerId (enrichWithUpcomingGames es tgm d n) = map streamPlayerId es"
  "map team (enrichWithUpcomingGames es tgm d n) = map team es"
  "map zScore (enrichWithUpcomingGames es tgm d n) = map zScore es"
  by (simp_all add: enrichWithUpcomingGames_def)

lemma candidateOf_fields:
  "streamPlayerId (candidateOf tgm day e) = streamPlayerId e"
  "team (candidateOf tgm day e) = team e"
  "zScore (candidateOf tgm day e) = zScore e"
  by (simp_all add: candidateOf_def)

lemma dayPlan_holes:
  "holes (dayPlan active rp fa tgm day)
     = max 0 (int active - int (length (filter (\<lambda>player. team player \<noteq> [] \<and> team player \<in> set (teamsPlaying day)) rp)))"
  by (simp add: dayPlan_def Let_def)

lemma enrich_candidates:
  "map (\<lambda>entry. entry\<lparr>reason := ''Plays on '' @ date day @ '' and ranks among top available z-scores''\<rparr>)
     (enrichWithUpcomingGames xs tgm (date day) 3)
   = map (candidateOf tgm day) xs"
  by (simp add: enrichWithUpcomingGames_def candidateOf_def)

lemma take_if_holes:
  "(0::int) \<le> h \<Longrightarrow> (if h > 0 then take (nat (min (h * 2) 5)) xs else []) = take (nat (min (h * 2) 5)) xs"
  by (cases "h = 0") auto

lemma dayPlan_recommendations:
  "recommendations (dayPlan active rp fa tgm day)
     = take (nat (min (holes (dayPlan active rp fa tgm day) * 2) 5))
         (map (candidateOf tgm day)
            (filter (\<lambda>agent. team agent \<noteq> [] \<and> team agent \<in> set (teamsPlaying day)) fa))"
proof -
  define hs where "hs = max 0 (int active - int (length (filter (\<lambda>player. team player \<noteq> [] \<and> team player \<in> set (teamsPlaying day)) rp)))"
  have h: "holes (dayPlan active rp fa tgm day) = hs"
    unfolding hs_def by (rule dayPlan_holes)
  have nonneg: "0 \<le> hs" unfolding hs_def by simp
  have "recommendations (dayPlan active rp fa tgm day)
          = (if hs > 0
             then take (nat (min (hs * 2) 5))
                    (map (\<lambda>entry. entry\<lparr>reason := ''Plays on '' @ date day @ '' and ranks among top available z-scores''\<rparr>)
                       (enrichWithUpcomingGames
                          (filter (\<lambda>agent. team agent \<noteq> [] \<and> team agent \<in> set (teamsPlaying day)) fa)
                          tgm (date day) 3))
             else [])"
    unfolding hs_def dayPlan_def Let_def by simp
  then show ?thesis
    unfolding h enrich_candidates take_if_holes[OF nonneg] .
qed

lemma rosterPlayerInfo_team:
  "team (rosterPlayerInfo pz pm ss pid) = snd (snd (getPlayerMeta pid pm))"
  by (simp add: rosterPlayerInfo_def split: prod.splits)

text \<open>
  Claim C7. For every day of the schedule window, \<open>holes\<close> is
  \<open>max(0, activeSlotCount - n)\<close>, \<open>n\<close> the number of the target roster's players whose
  team plays that day. The recommendations are empty when \<open>holes = 0\<close> and at most
  \<open>min(holes * 2, 5)\<close> otherwise: they are the first that many, in the order of the
  pool, of the free agents of the pool whose team plays that day. The pool holds at
  most 200 agents, each with a z-score entry, on no roster and with a resolved team; it
  is sorted by descending total Z, and no candidate left out of it has a higher total Z
  than an agent in it. So the recommendations are in descending z-score order.
\<close>

theorem streaming_day_plan:
  fixes input :: StreamingInput and i :: nat
  defines "plan \<equiv> buildStreamingPlan input"
  defines "rosterIds \<equiv> (case roster input of None \<Rightarrow> [] | Some r \<Rightarrow> playersOf r)"
  defines "teamOf \<equiv> \<lambda>pid. snd (snd (getPlayerMeta pid (playersMap input)))"
  defines "rostered \<equiv> (\<Union>r\<in>set (allRosters input). set (playersOf r))"
  defines "pool \<equiv> collectFreeAgents (playerZScores input) (playersMap input) rostered"
  defines "day \<equiv> dailySchedule input ! i"
  defines "d \<equiv> days plan ! i"
  defines "plays \<equiv> \<lambda>t. t \<noteq> [] \<and> t \<in> set (teamsPlaying day)"
  assumes inWindow: "i < length (dailySchedule input)"
  shows "length (days plan) = length (dailySchedule input) \<and> planDate d = date day
         \<and> holes d = max 0 (int (getActiveSlotCount (rosterPositions input))
                              - int (length (filter (\<lambda>pid. plays (teamOf pid)) rosterIds)))
         \<and> (holes d = 0 \<longrightarrow> recommendations d = [])
         \<and> int (length (recommendations d)) \<le> min (holes d * 2) 5
         \<and> map (\<lambda>c. (streamPlayerId c, team c, zScore c)) (recommendations d)
             = take (nat (min (holes d * 2) 5))
                 (map (\<lambda>a. (streamPlayerId a, team a, zScore a)) (filter (\<lambda>a. plays (team a)) pool))
         \<and> length pool \<le> 200
         \<and> (\<forall>a\<in>set pool. \<exists>z. (streamPlayerId a, z) \<in> set (playerZScores input) \<and> zScore a = totalZ z
                \<and> streamPlayerId a \<notin> rostered \<and> team a = teamOf (streamPlayerId a) \<and> team a \<noteq> [])
         \<and> sorted_wrt (\<lambda>a b. zScore a \<ge> zScore b) pool
         \<and> (\<forall>a\<in>set pool. \<forall>b\<in>set (List.map_filter (agentOf (playersMap input) rostered) (playerZScores input)).
                b \<notin> set pool \<longrightarrow> zScore b \<le> zScore a)
         \<and> (\<forall>c\<in>set (recommendations d). plays (team c) \<and>
                (\<exists>a\<in>set pool. streamPlayerId a = streamPlayerId c \<and> team a = team c \<and> zScore a = zScore c))
         \<and> sorted_wrt (\<lambda>a b. zScore a \<ge> zScore b) (recommendations d)"
proof -
  define active where "active = getActiveSlotCount (rosterPositions input)"
  define starterSet where "starterSet = buildStarterSet (matchups input)
      (case roster input of None \<Rightarrow> None | Some r \<Rightarrow> Some (roster_id r))
      (case roster input of None \<Rightarrow> None | Some r \<Rightarrow> starters r)"
  define rp where "rp = map (rosterPlayerInfo (playerZScores input) (playersMap input) starterSet) rosterIds"
  have days_eq: "days plan = map (dayPlan active rp pool (teamGameMap input)) (dailySchedule input)"
    unfolding plan_def buildStreamingPlan_def Let_def active_def rp_def starterSet_def rosterIds_def
      pool_def rostered_def buildRosteredSet_eq
    by simp
  have len: "length (days plan) = length (dailySchedule input)" by (simp add: days_eq)
  have d_eq: "d = dayPlan active rp pool (teamGameMap input) day"
    unfolding d_def day_def days_eq using inWindow by simp
  have pd: "planDate d = date day" by (simp add: d_eq dayPlan_def Let_def)
  have "length (filter (\<lambda>player. team player \<noteq> [] \<and> team player \<in> set (teamsPlaying day)) rp)
          = length (filter (\<lambda>pid. plays (teamOf pid)) rosterIds)"
    unfolding rp_def plays_def teamOf_def by (simp add: filter_map comp_def rosterPlayerInfo_team)
  then have h: "holes d = max 0 (int (getActiveSlotCount (rosterPositions input))
                              - int (length (filter (\<lambda>pid. plays (teamOf pid)) rosterIds)))"
    unfolding d_eq dayPlan_holes active_def by simp
  have recs: "recommendations d
                = take (nat (min (holes d * 2) 5))
                    (map (candidateOf (teamGameMap input) day) (filter (\<lambda>a. plays (team a)) pool))"
    unfolding d_eq plays_def by (rule dayPlan_recommendations)
  have empty: "holes d = 0 \<longrightarrow> recommendations d = []" by (simp add: recs)
  have nonneg: "0 \<le> holes d" by (simp add: h)
  have "length (recommendations d) \<le> nat (min (holes d * 2) 5)" by (simp add: recs)
  with nonneg have bound: "int (length (recommendations d)) \<le> min (holes d * 2) 5" by linarith
  have triple: "map (\<lambda>c. (streamPlayerId c, team c, zScore c)) (recommendations d)
             = take (nat (min (holes d * 2) 5))
                 (map (\<lambda>a. (streamPlayerId a, team a, zScore a)) (filter (\<lambda>a. plays (team a)) pool))"
    unfolding recs by (simp add: take_map comp_def candidateOf_fields)
  have cap: "length pool \<le> 200" by (simp add: pool_def collectFreeAgents_def)
  have agents: "\<forall>a\<in>set pool. \<exists>z. (streamPlayerId a, z) \<in> set (playerZScores input) \<and> zScore a = totalZ z
                \<and> streamPlayerId a \<notin> rostered \<and> team a = teamOf (streamPlayerId a) \<and> team a \<noteq> []"
  proof
    fix a assume "a \<in> set pool"
    then obtain entry where e: "entry \<in> set (playerZScores input)"
        "agentOf (playersMap input) rostered entry = Some a"
      unfolding pool_def using collectFreeAgents_member by blast
    from agentOf_Some[OF e(2)] e(1)
    show "\<exists>z. (streamPlayerId a, z) \<in> set (playerZScores input) \<and> zScore a = totalZ z
                \<and> streamPlayerId a \<notin> rostered \<and> team a = teamOf (streamPlayerId a) \<and> team a \<noteq> []"
      unfolding teamOf_def by (cases entry) auto
  qed
  have sortedPool: "sorted_wrt (\<lambda>a b. zScore a \<ge> zScore b) pool"
    unfolding pool_def by (rule sorted_collectFreeAgents)
  have top: "\<forall>a\<in>set pool. \<forall>b\<in>set (List.map_filter (agentOf (playersMap input) rostered) (playerZScores input)).
                b \<notin> set pool \<longrightarrow> zScore b \<le> zScore a"
    unfolding pool_def using collectFreeAgents_top by blast
  have members: "\<forall>c\<in>set (recommendations d). plays (team c) \<and>
                (\<exists>a\<in>set pool. streamPlayerId a = streamPlayerId c \<and> team a = team c \<and> zScore a = zScore c)"
  proof
    fix c assume "c \<in> set (recommendations d)"
    then have "c \<in> set (map (candidateOf (teamGameMap input) day) (filter (\<lambda>a. plays (team a)) pool))"
      unfolding recs by (rule in_set_takeD)
    then obtain a where "a \<in> set pool" "plays (team a)" "c = candidateOf (teamGameMap input) day a"
      by auto
    then show "plays (team c) \<and>
                (\<exists>a\<in>set pool. streamPlayerId a = streamPlayerId c \<and> team a = team c \<and> zScore a = zScore c)"
      by (auto simp: candidateOf_fields)
  qed
  have "sorted_wrt (\<lambda>a b. zScore a \<ge> zScore b) (filter (\<lambda>a. plays (team a)) pool)"
    using sortedPool by (rule sorted_wrt_filter)
  then have "sorted_wrt (\<lambda>a b. zScore a \<ge> zScore b)
               (map (candidateOf (teamGameMap input) day) (filter (\<lambda>a. plays (team a)) pool))"
    by (simp add: sorted_wrt_map candidateOf_fields)
  then have sortedRecs: "sorted_wrt (\<lambda>a b. zScore a \<ge> zScore b) (recommendations d)"
    unfolding recs by (rule sorted_wrt_take)
  from len pd h empty bound triple cap agents sortedPool top members sortedRecs
  show ?thesis by blast
qed

lemma exTeams:
  "snd (snd (getPlayerMeta ''r1'' exPlayersMap)) = ''LAL''"
  "snd (snd (getPlayerMeta ''r2'' exPlayersMap)) = ''BOS''"
  by (simp_all add: getPlayerMeta_def exPlayersMap_def exMeta_def Let_def truthy_def)

lemma exAgents:
  "List.map_filter (agentOf (playersMap exInput) {''r1'', ''r2'', ''o1''}) (playerZScores exInput)
   = [\<lparr>streamPlayerId = ''f1'', streamName = ''Free One'', team = ''LAL'', positions = [''G''],
        isStarter = False, zScore = 1.5, upcomingGames = [], reason = ''Top free agent by z-score''\<rparr>,
      \<lparr>streamPlayerId = ''f2'', streamName = ''Free Two'', team = ''BOS'', positions = [''G''],
        isStarter = False, zScore = 3, upcomingGames = [], reason = ''Top free agent by z-score''\<rparr>,
      \<lparr>streamPlayerId = ''f3'', streamName = ''Free Three'', team = ''LAL'', positions = [''G''],
        isStarter = False, zScore = 0.5, upcomingGames = [], reason = ''Top free agent by z-score''\<rparr>]"
  by (simp add: exInput_def List.map_filter_simps agentOf_def getPlayerMeta_def exPlayersMap_def
        exMeta_def emptyMeta_def Let_def truthy_def exZ_def)

lemma exPool:
  "map (\<lambda>a. (streamPlayerId a, team a, zScore a))
     (collectFreeAgents (playerZScores exInput) (playersMap exInput)
        (\<Union>r\<in>set (allRosters exInput). set (playersOf r)))
   = [(''f2'', ''BOS'', 3), (''f1'', ''LAL'', 1.5), (''f3'', ''LAL'', 0.5)]"
proof -
  have r: "(\<Union>r\<in>set (allRosters exInput). set (playersOf r)) = {''r1'', ''r2'', ''o1''}"
    by (auto simp: exInput_def playersOf_def)
  show ?thesis
    unfolding r collectFreeAgents_def exAgents by (simp add: sortBy_def)
qed

text \<open>
  On the first day the Lakers play: one roster player has a game, two of the three
  active slots are holes, and the free agents of the Lakers are recommended, best
  first. On the second day nobody plays: three holes and no recommendation.
\<close>

theorem streaming_day_plan_witness:
  "0 < length (dailySchedule exInput)
   \<and> holes (days (buildStreamingPlan exInput) ! 0) = 2
   \<and> map (\<lambda>c. (streamPlayerId c, team c, zScore c)) (recommendations (days (buildStreamingPlan exInput) ! 0))
       = [(''f1'', ''LAL'', 1.5), (''f3'', ''LAL'', 0.5)]
   \<and> holes (days (buildStreamingPlan exInput) ! 1) = 3
   \<and> recommendations (days (buildStreamingPlan exInput) ! 1) = []"
proof -
  have l0: "0 < length (dailySchedule exInput)" and l1: "1 < length (dailySchedule exInput)"
    by (simp_all add: exInput_def)
  have slots: "getActiveSlotCount (rosterPositions exInput) = 3"
    by (simp add: exInput_def getActiveSlotCount_def toUpperCase_def toUpperChar_def BENCH_CODES_def)
  have ids: "(case roster exInput of None \<Rightarrow> [] | Some r \<Rightarrow> playersOf r) = [''r1'', ''r2'']"
    by (simp add: exInput_def playersOf_def)
  have pm: "playersMap exInput = exPlayersMap" by (simp add: exInput_def)
  have t0: "teamsPlaying (dailySchedule exInput ! 0) = [''LAL'', ''NYK'']"
    and t1: "teamsPlaying (dailySchedule exInput ! 1) = []"
    and t1': "teamsPlaying (dailySchedule exInput ! Suc 0) = []"
    by (simp_all add: exInput_def)
  note day0 = streaming_day_plan[OF l0]
  note day1 = streaming_day_plan[OF l1]
  have h0: "holes (days (buildStreamingPlan exInput) ! 0) = 2"
    using day0 by (simp add: slots ids pm exTeams t0)
  have "map (\<lambda>c. (streamPlayerId c, team c, zScore c)) (recommendations (days (buildStreamingPlan exInput) ! 0))
          = take (nat (min (holes (days (buildStreamingPlan exInput) ! 0) * 2) 5))
              (map (\<lambda>a. (streamPlayerId a, team a, zScore a))
                 (filter (\<lambda>a. team a \<noteq> [] \<and> team a \<in> set (teamsPlaying (dailySchedule exInput ! 0)))
                    (collectFreeAgents (playerZScores exInput) (playersMap exInput)
                       (\<Union>r\<in>set (allRosters exInput). set (playersOf r)))))"
    using day0 by blast
  also have "\<dots> = take 4 (filter (\<lambda>(p, t, z). t \<noteq> [] \<and> t \<in> set [''LAL'', ''NYK''])
                         (map (\<lambda>a. (streamPlayerId a, team a, zScore a))
                            (collectFreeAgents (playerZScores exInput) (playersMap exInput)
                               (\<Union>r\<in>set (allRosters exInput). set (playersOf r)))))"
    by (simp add: h0 t0 filter_map comp_def)
  also have "\<dots> = [(''f1'', ''LAL'', 1.5), (''f3'', ''LAL'', 0.5)]"
    unfolding exPool by simp
  finally have r0: "map (\<lambda>c. (streamPlayerId c, team c, zScore c))
                      (recommendations (days (buildStreamingPlan exInput) ! 0))
                    = [(''f1'', ''LAL'', 1.5), (''f3'', ''LAL'', 0.5)]" .
  have h1: "holes (days (buildStreamingPlan exInput) ! 1) = 3"
    using day1 by (simp add: slots ids pm exTeams t1')
  have "length (recommendations (days (buildStreamingPlan exInput) ! 1))
          = length (map (\<lambda>c. (streamPlayerId c, team c, zScore c))
                      (recommendations (days (buildStreamingPlan exInput) ! 1)))"
    by simp
  also have "\<dots> = length (take (nat (min (holes (days (buildStreamingPlan exInput) ! 1) * 2) 5))
              (map (\<lambda>a. (streamPlayerId a, team a, zScore a))
                 (filter (\<lambda>a. team a \<noteq> [] \<and> team a \<in> set (teamsPlaying (dailySchedule exInput ! 1)))
                    (collectFreeAgents (playerZScores exInput) (playersMap exInput)
                       (\<Union>r\<in>set (allRosters exInput). set (playersOf r))))))"
    using day1 by simp
  also have "\<dots> = 0" by (simp add: t1')
  finally have r1: "recommendations (days (buildStreamingPlan exInput) ! 1) = []" by simp
  from l0 h0 r0 h1 r1 show ?thesis by blast
qed

end
